theory Spec2Isabelle
  imports Complex_Main
begin

section \<open>Python values used by the scraper\<close>

text \<open>
  Python's \<^verbatim>\<open>range(start, stop, step)\<close> for a non-zero step; the two loops of the
  task grid are \<^verbatim>\<open>range(5, 0, -1)\<close> and \<^verbatim>\<open>range(1, max_pages_per_star + 1)\<close>.
  (A zero step raises in Python; no caller here passes one, and the model yields the
  empty list for it.)
\<close>

function py_range :: "int \<Rightarrow> int \<Rightarrow> int \<Rightarrow> int list" where
  "py_range i stop step =
     (if (0 < step \<and> i < stop) \<or> (step < 0 \<and> stop < i)
      then i # py_range (i + step) stop step
      else [])"
  by pat_completeness auto
termination
  by (relation "measure (\<lambda>(i, stop, step). nat (if 0 < step then stop - i else i - stop))") auto

declare py_range.simps [simp del]

text \<open>Substring tests (\<^verbatim>\<open>needle in text\<close>) and the ASCII character classes of the
  regular expressions.\<close>

fun starts_with :: "string \<Rightarrow> string \<Rightarrow> bool" where
  "starts_with s [] = True"
| "starts_with [] (p # ps) = False"
| "starts_with (c # cs) (p # ps) = (c = p \<and> starts_with cs ps)"

fun contains :: "string \<Rightarrow> string \<Rightarrow> bool" where
  "contains [] p = starts_with [] p"
| "contains (c # cs) p = (starts_with (c # cs) p \<or> contains cs p)"

definition is_digit :: "char \<Rightarrow> bool" where
  "is_digit c = (48 \<le> (of_char c :: nat) \<and> (of_char c :: nat) \<le> 57)"

definition is_upper :: "char \<Rightarrow> bool" where
  "is_upper c = (65 \<le> (of_char c :: nat) \<and> (of_char c :: nat) \<le> 90)"

section \<open>config.py\<close>

definition MAX_THREADS :: int where
  "MAX_THREADS = 10"

definition MAX_PAGES_PER_STAR :: int where
  "MAX_PAGES_PER_STAR = 10"

definition MIN_DELAY :: real where
  "MIN_DELAY = 3 / 2"

definition MAX_DELAY :: real where
  "MAX_DELAY = 7 / 2"

definition STAR_FILTERS :: "int \<rightharpoonup> string" where
  "STAR_FILTERS = [5 \<mapsto> ''five_star'', 4 \<mapsto> ''four_star'', 3 \<mapsto> ''three_star'',
                   2 \<mapsto> ''two_star'', 1 \<mapsto> ''one_star'']"

section \<open>The task grid of \<^verbatim>\<open>ReviewScraper.scrape_reviews\<close>\<close>

text \<open>
  \<^verbatim>\<open>
  scrape_tasks = []
  for star_rating in range(5, 0, -1):
      for page_number in range(1, max_pages_per_star + 1):
          scrape_tasks.append((star_rating, page_number))
  \<close>
  Both loops append to the one list; each is a left fold over its range.
\<close>

definition append_pages :: "int \<Rightarrow> (int \<times> int) list \<Rightarrow> int \<Rightarrow> (int \<times> int) list" where
  "append_pages max_pages_per_star scrape_tasks star_rating =
     foldl (\<lambda>acc page_number. acc @ [(star_rating, page_number)]) scrape_tasks
       (py_range 1 (max_pages_per_star + 1) 1)"

definition build_tasks :: "int \<Rightarrow> (int \<times> int) list" where
  "build_tasks max_pages_per_star =
     foldl (append_pages max_pages_per_star) [] (py_range 5 0 (- 1))"

section \<open>The world outside the program\<close>

text \<open>
  Everything the scraper reads from outside is an oracle of the \<open>world\<close>, indexed by how
  many such reads came before; everything it does to the outside is recorded in \<open>io\<close>.
  \<^item> \<open>random w n\<close>: the \<open>n\<close>-th draw of \<^verbatim>\<open>random.random()\<close>;
    \<^verbatim>\<open>random.uniform(a, b)\<close> is \<^verbatim>\<open>a + (b - a) * random()\<close>.
  \<^item> \<open>http_get w n sess url\<close>: what \<^verbatim>\<open>session.get(url, timeout=10)\<close> does when it is the
    \<open>n\<close>-th GET issued: an answer with a status and a body, a
    \<^verbatim>\<open>requests.RequestException\<close>, or an exception of another class.
  \<^item> \<open>now w n\<close>: the \<open>n\<close>-th reading of
    \<^verbatim>\<open>datetime.now().strftime("%Y-%m-%d %H:%M:%S")\<close>.
  \<^item> \<open>new_session w\<close>: the session \<^verbatim>\<open>make_request_with_backoff\<close> creates when it is given
    none.
  \<^item> \<open>parse\<close>, \<open>select\<close>, \<open>select_one\<close>, \<open>get_text\<close>: BeautifulSoup, on elements of
    type \<open>'e\<close>.
  \<^item> \<open>to_float\<close>: Python's \<^verbatim>\<open>float\<close> on a string, the double it returns taken as a real
    number.
  A string is a list of characters with code points below 256. Times are real numbers of
  seconds. Calls of the logger are not modelled: they change no
  value and no branch.
\<close>

datatype exn = KeyError | ValueError | Unexpected

record response =
  status_code :: int
  resp_text :: string

datatype http_outcome = Answer response | RequestException | OtherException

text \<open>The three places that call \<^verbatim>\<open>time.sleep\<close>: the random delay before a GET, the
  backoff after a failed one, and the extra delay of a task for page 1 or 2.\<close>

datatype pause = Delay | Backoff | FirstPages

datatype event = Sleep pause real | Get string

record ('s, 'e) world =
  random :: "nat \<Rightarrow> real"
  http_get :: "nat \<Rightarrow> 's \<Rightarrow> string \<Rightarrow> http_outcome"
  now :: "nat \<Rightarrow> string"
  new_session :: "'s"
  parse :: "string \<Rightarrow> 'e"
  select :: "'e \<Rightarrow> string \<Rightarrow> 'e list"
  select_one :: "'e \<Rightarrow> string \<Rightarrow> 'e option"
  get_text :: "'e \<Rightarrow> string"
  to_float :: "string \<Rightarrow> real"

text \<open>
  \<open>trace\<close> lists the sleeps and the GETs in the order they happen, \<open>draws\<close>, \<open>gets\<close> and
  \<open>clock_reads\<close> count the reads of the three oracles; \<open>fetch_calls\<close> counts
  the calls of \<^verbatim>\<open>make_request_with_backoff\<close> (the "fetch-call count" of the
  specification); \<open>csv_files\<close> lists the files written by \<^verbatim>\<open>df.to_csv\<close>.
\<close>

record 'r io =
  draws :: nat
  gets :: nat
  clock_reads :: nat
  fetch_calls :: nat
  trace :: "event list"
  csv_files :: "(string \<times> 'r list) list"

definition uniform :: "('s, 'e) world \<Rightarrow> real \<Rightarrow> real \<Rightarrow> 'r io \<Rightarrow> real \<times> 'r io" where
  "uniform w a b io = (a + (b - a) * random w (draws io), io\<lparr>draws := draws io + 1\<rparr>)"

definition get_random_delay :: "('s, 'e) world \<Rightarrow> 'r io \<Rightarrow> real \<times> 'r io" where
  "get_random_delay w io = uniform w MIN_DELAY MAX_DELAY io"

definition sleep :: "pause \<Rightarrow> real \<Rightarrow> 'r io \<Rightarrow> 'r io" where
  "sleep p d io = io\<lparr>trace := trace io @ [Sleep p d]\<rparr>"

definition session_get :: "('s, 'e) world \<Rightarrow> 's \<Rightarrow> string \<Rightarrow> 'r io \<Rightarrow> http_outcome \<times> 'r io" where
  "session_get w sess url io =
     (http_get w (gets io) sess url, io\<lparr>gets := gets io + 1, trace := trace io @ [Get url]\<rparr>)"

definition read_clock :: "('s, 'e) world \<Rightarrow> 'r io \<Rightarrow> string \<times> 'r io" where
  "read_clock w io = (now w (clock_reads io), io\<lparr>clock_reads := clock_reads io + 1\<rparr>)"

section \<open>utils.py\<close>

subsection \<open>\<^verbatim>\<open>extract_product_id\<close>\<close>

text \<open>
  Each pattern is a literal followed by the group \<^verbatim>\<open>([A-Z0-9]{10})\<close>; \<^verbatim>\<open>re.search\<close> takes
  the leftmost position where it matches and \<^verbatim>\<open>group(1)\<close> is the ten characters.
\<close>

definition is_id_char :: "char \<Rightarrow> bool" where
  "is_id_char c = (is_upper c \<or> is_digit c)"

definition match_here :: "string \<Rightarrow> string \<Rightarrow> string option" where
  "match_here lit s =
     (let g = take 10 (drop (length lit) s)
      in if starts_with s lit \<and> length g = 10 \<and> list_all is_id_char g then Some g else None)"

fun re_search :: "string \<Rightarrow> string \<Rightarrow> string option" where
  "re_search lit [] = match_here lit []"
| "re_search lit (c # cs) =
     (case match_here lit (c # cs) of Some g \<Rightarrow> Some g | None \<Rightarrow> re_search lit cs)"

fun first_match :: "string list \<Rightarrow> string \<Rightarrow> string option" where
  "first_match [] url = None"
| "first_match (pattern # patterns) url =
     (case re_search pattern url of Some g \<Rightarrow> Some g | None \<Rightarrow> first_match patterns url)"

definition extract_product_id :: "string \<Rightarrow> string option" where
  "extract_product_id url = first_match [''/dp/'', ''/product/'', ''/gp/product/''] url"

subsection \<open>\<^verbatim>\<open>make_request_with_backoff\<close>\<close>

text \<open>
  One pass through the \<^verbatim>\<open>try\<close> block up to the GET: the random delay is slept, then the
  GET is issued.
\<close>

definition attempt :: "('s, 'e) world \<Rightarrow> 's \<Rightarrow> string \<Rightarrow> 'r io \<Rightarrow> http_outcome \<times> 'r io" where
  "attempt w sess url io =
     (let (d, io1) = get_random_delay w io
      in session_get w sess url (sleep Delay d io1))"

text \<open>The backoff after a failed pass: \<^verbatim>\<open>wait_time = 2 ** retry + random.uniform(0, 1)\<close>,
  with \<open>retry\<close> already incremented.\<close>

definition backoff_wait :: "('s, 'e) world \<Rightarrow> nat \<Rightarrow> 'r io \<Rightarrow> 'r io" where
  "backoff_wait w retry io =
     (let (u, io1) = uniform w 0 1 io
      in sleep Backoff (2 ^ retry + u) io1)"

text \<open>
  The loop \<^verbatim>\<open>while retry < max_retries\<close>. A status of 200 returns the response; any other
  status and a \<^verbatim>\<open>RequestException\<close> fall through to the backoff; an exception of
  another class is not caught and leaves the function. Falling out of the loop returns
  \<^verbatim>\<open>None\<close>.
\<close>

function backoff_loop ::
  "('s, 'e) world \<Rightarrow> string \<Rightarrow> 's \<Rightarrow> int \<Rightarrow> nat \<Rightarrow> 'r io \<Rightarrow> (exn + response option) \<times> 'r io" where
  "backoff_loop w url sess max_retries retry io =
     (if int retry < max_retries then
        (case attempt w sess url io of
           (Answer r, io1) \<Rightarrow>
             if status_code r = 200 then (Inr (Some r), io1)
             else backoff_loop w url sess max_retries (Suc retry) (backoff_wait w (Suc retry) io1)
         | (RequestException, io1) \<Rightarrow>
             backoff_loop w url sess max_retries (Suc retry) (backoff_wait w (Suc retry) io1)
         | (OtherException, io1) \<Rightarrow> (Inl Unexpected, io1))
      else (Inr None, io))"
  by pat_completeness auto
termination
  by (relation "measure (\<lambda>(w, url, sess, max_retries, retry, io). nat (max_retries - int retry))")
    auto

declare backoff_loop.simps [simp del]

text \<open>\<^verbatim>\<open>if not session: session = requests.Session()\<close>\<close>

definition session_or_new :: "('s, 'e) world \<Rightarrow> 's option \<Rightarrow> 's" where
  "session_or_new w sess = (case sess of None \<Rightarrow> new_session w | Some s \<Rightarrow> s)"

definition make_request_with_backoff ::
  "('s, 'e) world \<Rightarrow> string \<Rightarrow> 's option \<Rightarrow> int \<Rightarrow> 'r io \<Rightarrow> (exn + response option) \<times> 'r io" where
  "make_request_with_backoff w url sess max_retries io =
     backoff_loop w url (session_or_new w sess) max_retries 0
       (io\<lparr>fetch_calls := fetch_calls io + 1\<rparr>)"

subsection \<open>What a run of the retry loop leaves in the trace\<close>

text \<open>
  An attempt fails, for the loop, when it answers with a status other than 200 or raises
  a \<^verbatim>\<open>RequestException\<close>. The \<open>j\<close>-th failed round (counting from 0), starting at draw
  \<open>d\<close>, sleeps the random delay, issues the GET and sleeps the backoff
  \<open>2 ^ (j + 1) + uniform(0, 1)\<close>.
\<close>

definition failed_attempt :: "http_outcome \<Rightarrow> bool" where
  "failed_attempt out =
     (case out of
        Answer r \<Rightarrow> status_code r \<noteq> 200
      | RequestException \<Rightarrow> True
      | OtherException \<Rightarrow> False)"

definition delay_of :: "('s, 'e) world \<Rightarrow> nat \<Rightarrow> real" where
  "delay_of w d = MIN_DELAY + (MAX_DELAY - MIN_DELAY) * random w d"

definition round_trace :: "('s, 'e) world \<Rightarrow> string \<Rightarrow> nat \<Rightarrow> nat \<Rightarrow> event list" where
  "round_trace w url d j =
     [Sleep Delay (delay_of w d), Get url, Sleep Backoff (2 ^ Suc j + random w (Suc d))]"

definition rounds_trace :: "('s, 'e) world \<Rightarrow> string \<Rightarrow> nat \<Rightarrow> nat \<Rightarrow> nat \<Rightarrow> event list" where
  "rounds_trace w url d retry k =
     concat (map (\<lambda>j. round_trace w url (d + 2 * j) (retry + j)) [0..<k])"

definition after_rounds :: "('s, 'e) world \<Rightarrow> string \<Rightarrow> nat \<Rightarrow> nat \<Rightarrow> 'r io \<Rightarrow> 'r io" where
  "after_rounds w url retry k io =
     io\<lparr>draws := draws io + 2 * k, gets := gets io + k,
        trace := trace io @ rounds_trace w url (draws io) retry k\<rparr>"

text \<open>The time slept in backoff, read off a trace.\<close>

fun backoff_of :: "event \<Rightarrow> real" where
  "backoff_of (Sleep Backoff t) = t"
| "backoff_of e = 0"

definition backoff_time :: "event list \<Rightarrow> real" where
  "backoff_time tr = sum_list (map backoff_of tr)"

section \<open>reviews\_scraper.py\<close>

subsection \<open>Strings: URLs, \<^verbatim>\<open>strip\<close>, the rating pattern\<close>

text \<open>Decimal digits of an integer, as \<^verbatim>\<open>str.format\<close> writes a page number.\<close>

fun str_nat :: "nat \<Rightarrow> string" where
  "str_nat n =
     (if n < 10 then [char_of (48 + n)] else str_nat (n div 10) @ [char_of (48 + n mod 10)])"

declare str_nat.simps [simp del]

definition str_int :: "int \<Rightarrow> string" where
  "str_int i = (if i < 0 then CHR ''-'' # str_nat (nat (- i)) else str_nat (nat i))"

text \<open>\<^verbatim>\<open>REVIEWS_URL_PATTERN.format(product_id=..., star_filter=..., page=...)\<close>\<close>

definition reviews_url :: "string \<Rightarrow> string \<Rightarrow> int \<Rightarrow> string" where
  "reviews_url product_id star_filter page =
     ''https://www.amazon.in/product-reviews/'' @ product_id
     @ ''/ref=cm_cr_arp_d_viewopt_sr?ie=UTF8&reviewerType=all_reviews&filterByStar=''
     @ star_filter @ ''&pageNumber='' @ str_int page"

text \<open>The login-wall and captcha markers tested on a response body, by the canary check
  and by every task.\<close>

definition soft_blocked :: "string \<Rightarrow> bool" where
  "soft_blocked body =
     (contains body ''Sign in to continue''
      \<or> contains body ''Type the characters you see in this image'')"

text \<open>
  \<^verbatim>\<open>str.strip()\<close> removes the characters for which \<^verbatim>\<open>str.isspace\<close> holds; below 256 these
  are the code points 9 to 13, 28 to 32, 133 and 160.
\<close>

definition is_space :: "char \<Rightarrow> bool" where
  "is_space c =
     (let n = (of_char c :: nat)
      in (9 \<le> n \<and> n \<le> 13) \<or> (28 \<le> n \<and> n \<le> 32) \<or> n = 133 \<or> n = 160)"

definition strip :: "string \<Rightarrow> string" where
  "strip s = rev (dropWhile is_space (rev (dropWhile is_space s)))"

text \<open>
  \<^verbatim>\<open>re.search(r'(\d+(\.\d+)?)', rating_text)\<close>: the leftmost digit starts the match, the
  digits after it belong to it, and so does a dot followed by at least one digit, with
  the digits after it. (Below 256 the digits of \<^verbatim>\<open>\d\<close> are \<open>0\<close> to \<open>9\<close>.)
\<close>

definition number_here :: "string \<Rightarrow> string" where
  "number_here s =
     (let whole = takeWhile is_digit s; rest = dropWhile is_digit s
      in case rest of
           d # e # r \<Rightarrow>
             if d = CHR ''.'' \<and> is_digit e then whole @ [d] @ takeWhile is_digit (e # r)
             else whole
         | _ \<Rightarrow> whole)"

fun search_number :: "string \<Rightarrow> string option" where
  "search_number [] = None"
| "search_number (c # cs) = (if is_digit c then Some (number_here (c # cs)) else search_number cs)"

subsection \<open>Selectors and review records\<close>

datatype selector = Container | Title | Text | Date | Verified | Author | Rating

fun REVIEW_SELECTORS :: "selector \<Rightarrow> string" where
  "REVIEW_SELECTORS Container = ''[data-hook='review']''"
| "REVIEW_SELECTORS Title = ''[data-hook='review-title'] span''"
| "REVIEW_SELECTORS Text = ''[data-hook='review-body'] span''"
| "REVIEW_SELECTORS Date = ''[data-hook='review-date']''"
| "REVIEW_SELECTORS Verified = ''[data-hook='avp-badge']''"
| "REVIEW_SELECTORS Author = ''.a-profile-name''"
| "REVIEW_SELECTORS Rating = ''i.review-rating''"

text \<open>The dictionary \<^verbatim>\<open>review_data\<close>; its key \<^verbatim>\<open>"text"\<close> is the field \<open>review_text\<close>.\<close>

record review =
  star_rating :: real
  title :: string
  review_text :: string
  date :: string
  verified :: bool
  author :: string
  extracted_date :: string

subsection \<open>The scraper object\<close>

text \<open>
  The attributes of \<^verbatim>\<open>ReviewScraper\<close>. The semaphore is not a field here: this part of
  the model runs one task at a time, where \<^verbatim>\<open>with self.semaphore\<close> takes a unit and gives
  it back around the task's body. The worker pool further down models the semaphore
  under interleaving.
\<close>

record 's review_scraper =
  session :: "'s option"
  max_threads :: int
  reviews_queue :: "review list"
  total_reviews :: int
  successful_requests :: int
  failed_requests :: int

text \<open>\<^verbatim>\<open>__init__\<close>; \<^verbatim>\<open>Semaphore(max_threads)\<close> raises \<^verbatim>\<open>ValueError\<close> on a negative value.\<close>

definition new_scraper :: "'s option \<Rightarrow> int \<Rightarrow> exn + 's review_scraper" where
  "new_scraper sess threads =
     (if threads < 0 then Inl ValueError
      else Inr \<lparr>session = sess, max_threads = threads, reviews_queue = [], total_reviews = 0,
                successful_requests = 0, failed_requests = 0\<rparr>)"

subsection \<open>\<^verbatim>\<open>_extract_reviews_from_page\<close>\<close>

definition stripped_text :: "('s, 'e) world \<Rightarrow> 'e option \<Rightarrow> string" where
  "stripped_text w elem = (case elem of None \<Rightarrow> [] | Some x \<Rightarrow> strip (get_text w x))"

definition select_or :: "('s, 'e) world \<Rightarrow> 'e \<Rightarrow> string \<Rightarrow> string \<Rightarrow> 'e option" where
  "select_or w element sel fallback =
     (case select_one w element sel of
        None \<Rightarrow> select_one w element fallback
      | Some x \<Rightarrow> Some x)"

definition extracted_rating :: "('s, 'e) world \<Rightarrow> 'e \<Rightarrow> int \<Rightarrow> real" where
  "extracted_rating w element star =
     (case select_one w element (REVIEW_SELECTORS Rating) of
        None \<Rightarrow> of_int star
      | Some rating_elem \<Rightarrow>
          (case search_number (strip (get_text w rating_elem)) of
             None \<Rightarrow> of_int star
           | Some m \<Rightarrow> to_float w m))"

text \<open>The body of the \<^verbatim>\<open>for element in review_elements\<close> loop: the fields read from the
  element, and the dictionary \<^verbatim>\<open>review_data\<close> stamped with the clock reading.\<close>

definition review_fields :: "('s, 'e) world \<Rightarrow> 'e \<Rightarrow> int \<Rightarrow> string \<Rightarrow> review" where
  "review_fields w element star stamp =
     (let title_elem = select_or w element (REVIEW_SELECTORS Title) ''[data-hook='review-title']'';
          text_elem = select_or w element (REVIEW_SELECTORS Text) ''[data-hook='review-body']'';
          date_elem = select_one w element (REVIEW_SELECTORS Date);
          author_elem = select_one w element (REVIEW_SELECTORS Author)
      in \<lparr>star_rating = extracted_rating w element star,
          title = stripped_text w title_elem,
          review_text = stripped_text w text_elem,
          date = stripped_text w date_elem,
          verified = (select_one w element (REVIEW_SELECTORS Verified) \<noteq> None),
          author = stripped_text w author_elem,
          extracted_date = stamp\<rparr>)"

definition review_data :: "('s, 'e) world \<Rightarrow> 'e \<Rightarrow> int \<Rightarrow> review io \<Rightarrow> review \<times> review io" where
  "review_data w element star io =
     (let (stamp, io1) = read_clock w io
      in (review_fields w element star stamp, io1))"

text \<open>The loop: every element's record is put on the queue and counted.\<close>

fun extract_loop ::
  "('s, 'e) world \<Rightarrow> int \<Rightarrow> 'e list \<Rightarrow> 's review_scraper \<times> review io \<times> int
     \<Rightarrow> 's review_scraper \<times> review io \<times> int" where
  "extract_loop w star [] st = st"
| "extract_loop w star (element # rest) (sc, io, count) =
     (let (r, io1) = review_data w element star io
      in extract_loop w star rest (sc\<lparr>reviews_queue := reviews_queue sc @ [r]\<rparr>, io1, count + 1))"

definition extract_reviews_from_page ::
  "('s, 'e) world \<Rightarrow> string \<Rightarrow> int \<Rightarrow> 's review_scraper \<times> review io
     \<Rightarrow> int \<times> 's review_scraper \<times> review io" where
  "extract_reviews_from_page w html_content star st =
     (let soup = parse w html_content;
          review_elements = select w soup (REVIEW_SELECTORS Container)
      in if review_elements = [] then (0, st)
         else (let (sc1, io1, count) = extract_loop w star review_elements (fst st, snd st, 0)
               in (count, sc1, io1)))"

subsection \<open>\<^verbatim>\<open>_scrape_single_page\<close>\<close>

text \<open>
  \<^verbatim>\<open>if not response\<close>: a response object is false when its status is an error status
  (\<^verbatim>\<open>Response.__bool__\<close> is \<^verbatim>\<open>Response.ok\<close>), and \<^verbatim>\<open>None\<close> is false.
\<close>

definition falsy :: "response option \<Rightarrow> bool" where
  "falsy resp = (case resp of None \<Rightarrow> True | Some r \<Rightarrow> 400 \<le> status_code r \<and> status_code r < 600)"

definition count_failure :: "'s review_scraper \<Rightarrow> 's review_scraper" where
  "count_failure sc = sc\<lparr>failed_requests := failed_requests sc + 1\<rparr>"

definition count_success :: "'s review_scraper \<Rightarrow> 's review_scraper" where
  "count_success sc = sc\<lparr>successful_requests := successful_requests sc + 1\<rparr>"

text \<open>The extra sleep of the first two pages: \<^verbatim>\<open>time.sleep(2.0 + get_random_delay())\<close>.\<close>

definition first_pages_delay :: "('s, 'e) world \<Rightarrow> int \<Rightarrow> 'r io \<Rightarrow> 'r io" where
  "first_pages_delay w page io =
     (if page \<le> 2 then (let (d, io1) = get_random_delay w io in sleep FirstPages (2 + d) io1) else io)"

text \<open>
  The block under \<^verbatim>\<open>with self.semaphore\<close>. The result is the number of reviews of the
  page, or the exception that leaves the method: \<^verbatim>\<open>KeyError\<close> from
  \<^verbatim>\<open>STAR_FILTERS[star_rating]\<close>, or what the fetch raised.
\<close>

definition scrape_single_page ::
  "('s, 'e) world \<Rightarrow> string \<Rightarrow> int \<Rightarrow> int \<Rightarrow> 's review_scraper \<times> review io
     \<Rightarrow> (exn + int) \<times> 's review_scraper \<times> review io" where
  "scrape_single_page w product_id star page st =
     (case STAR_FILTERS star of
        None \<Rightarrow> (Inl KeyError, st)
      | Some star_filter \<Rightarrow>
          (let url = reviews_url product_id star_filter page;
               io1 = first_pages_delay w page (snd st);
               (fetched, io2) = make_request_with_backoff w url (session (fst st)) 3 io1
           in case fetched of
                Inl e \<Rightarrow> (Inl e, fst st, io2)
              | Inr response \<Rightarrow>
                  (case (if falsy response then None else response) of
                     None \<Rightarrow> (Inr 0, count_failure (fst st), io2)
                   | Some r \<Rightarrow>
                       if soft_blocked (resp_text r) then (Inr 0, count_failure (fst st), io2)
                       else (let (n, st1) = extract_reviews_from_page w (resp_text r) star
                                              (count_success (fst st), io2)
                             in (Inr n, st1)))))"

subsection \<open>\<^verbatim>\<open>scrape_reviews\<close>\<close>

text \<open>
  The pool phase when the executor runs one task after the other, in the order of
  submission (what it does with \<open>max_threads = 1\<close>). The result of a task is only logged,
  and so is an exception it raised (\<^verbatim>\<open>except Exception\<close> around \<^verbatim>\<open>future.result()\<close>): the
  next task starts from the state the task left. With more workers the tasks interleave;
  what then depends on the interleaving (the semaphore, the two counters) is modelled in
  the two pools further down, step by step and for every schedule.
\<close>

fun run_tasks ::
  "('s, 'e) world \<Rightarrow> string \<Rightarrow> (int \<times> int) list \<Rightarrow> 's review_scraper \<times> review io
     \<Rightarrow> 's review_scraper \<times> review io" where
  "run_tasks w product_id [] st = st"
| "run_tasks w product_id ((star, page) # tasks) st =
     run_tasks w product_id tasks (snd (scrape_single_page w product_id star page st))"

text \<open>Draining the queue into the table, and saving a table that is not empty.\<close>

definition drain :: "'s review_scraper \<Rightarrow> review list \<times> 's review_scraper" where
  "drain sc = (reviews_queue sc, sc\<lparr>reviews_queue := []\<rparr>)"

definition save_csv :: "string \<Rightarrow> review list \<Rightarrow> review io \<Rightarrow> review io" where
  "save_csv product_id df io =
     (if df \<noteq> [] then io\<lparr>csv_files := csv_files io @ [(product_id @ ''_reviews.csv'', df)]\<rparr>
      else io)"

text \<open>The URL of the access test: \<^verbatim>\<open>f"https://www.amazon.in/product-reviews/{product_id}"\<close>\<close>

definition canary_url :: "string \<Rightarrow> string" where
  "canary_url product_id = ''https://www.amazon.in/product-reviews/'' @ product_id"

text \<open>
  The method returns a table (a list of records; \<^verbatim>\<open>pd.DataFrame()\<close> is the empty one)
  and nothing else. It raises what the canary fetch raised, and \<^verbatim>\<open>ValueError\<close> when
  \<^verbatim>\<open>ThreadPoolExecutor\<close> is given \<^verbatim>\<open>max_workers <= 0\<close>.
\<close>

definition scrape_reviews ::
  "('s, 'e) world \<Rightarrow> 's review_scraper \<Rightarrow> string \<Rightarrow> int \<Rightarrow> review io
     \<Rightarrow> (exn + review list) \<times> 's review_scraper \<times> review io" where
  "scrape_reviews w sc product_url max_pages_per_star io =
     (case extract_product_id product_url of
        None \<Rightarrow> (Inr [], sc, io)
      | Some product_id \<Rightarrow>
          if session sc = None then (Inr [], sc, io)
          else
            (let test_url = canary_url product_id;
                 (test_response, io1) = make_request_with_backoff w test_url (session sc) 3 io
             in case test_response of
                  Inl e \<Rightarrow> (Inl e, sc, io1)
                | Inr None \<Rightarrow> (Inr [], sc, io1)
                | Inr (Some r) \<Rightarrow>
                    if soft_blocked (resp_text r) then (Inr [], sc, io1)
                    else
                      (let scrape_tasks = build_tasks max_pages_per_star
                       in if max_threads sc \<le> 0 then (Inl ValueError, sc, io1)
                          else
                            (let (sc2, io2) = run_tasks w product_id scrape_tasks (sc, io1);
                                 (reviews, sc3) = drain sc2
                             in (Inr reviews, sc3, save_csv product_id reviews io2)))))"

subsection \<open>Reading off what a call of the extraction produced\<close>

text \<open>The records a call put on the queue, a record without its capture time, and the
  records of a list of elements when the first of them is stamped with clock reading
  \<open>c\<close>.\<close>

definition new_reviews :: "'s review_scraper \<Rightarrow> 's review_scraper \<Rightarrow> review list" where
  "new_reviews before after = drop (length (reviews_queue before)) (reviews_queue after)"

definition undated :: "review \<Rightarrow> review" where
  "undated r = r\<lparr>extracted_date := []\<rparr>"

fun stamped :: "('s, 'e) world \<Rightarrow> int \<Rightarrow> nat \<Rightarrow> 'e list \<Rightarrow> review list" where
  "stamped w star c [] = []"
| "stamped w star c (element # rest) =
     review_fields w element star (now w c) # stamped w star (Suc c) rest"

section \<open>The worker pool and the semaphore\<close>

text \<open>
  Every task submitted to the executor runs \<^verbatim>\<open>_scrape_single_page\<close>, whose whole body is
  under \<^verbatim>\<open>with self.semaphore\<close>. A worker is in one of these phases:
  \<^item> \<open>Queued\<close>: submitted, not yet past \<^verbatim>\<open>with self.semaphore\<close> (line 138);
  \<^item> \<open>Holding\<close>: inside the block, before the call of the fetcher (lines 139 to 147);
  \<^item> \<open>Fetching\<close>: inside \<^verbatim>\<open>make_request_with_backoff\<close> (line 149);
  \<^item> \<open>Fetched r\<close>: the fetch has ended with \<open>r\<close> (\<^verbatim>\<open>None\<close>, a response, or an exception),
    the worker is still inside the block (lines 150 to 162);
  \<^item> \<open>Released\<close>: the block has been left, by \<^verbatim>\<open>return\<close> or by the exception.
\<close>

datatype phase = Queued | Holding | Fetching | Fetched "exn + response option" | Released

text \<open>\<open>semaphore\<close> is the counter of \<^verbatim>\<open>Semaphore(max_threads)\<close>.\<close>

record pool =
  semaphore :: nat
  workers :: "phase list"

definition start_pool :: "nat \<Rightarrow> (int \<times> int) list \<Rightarrow> pool" where
  "start_pool capacity tasks = \<lparr>semaphore = capacity, workers = map (\<lambda>task. Queued) tasks\<rparr>"

text \<open>
  One step of the worker the scheduler picks; \<open>snd t\<close> is how its fetch ends, should this
  step end it. Entering the block takes a unit, and a worker that finds the counter at 0
  waits: the step changes nothing. Leaving the block gives the unit back, whatever the
  fetch ended with.
\<close>

definition step :: "nat \<times> (exn + response option) \<Rightarrow> pool \<Rightarrow> pool" where
  "step t p =
     (if fst t < length (workers p) then
        (case workers p ! fst t of
           Queued \<Rightarrow>
             if 0 < semaphore p
             then p\<lparr>semaphore := semaphore p - 1, workers := (workers p)[fst t := Holding]\<rparr>
             else p
         | Holding \<Rightarrow> p\<lparr>workers := (workers p)[fst t := Fetching]\<rparr>
         | Fetching \<Rightarrow> p\<lparr>workers := (workers p)[fst t := Fetched (snd t)]\<rparr>
         | Fetched fetched \<Rightarrow>
             p\<lparr>semaphore := semaphore p + 1, workers := (workers p)[fst t := Released]\<rparr>
         | Released \<Rightarrow> p)
      else p)"

definition run_pool :: "(nat \<times> (exn + response option)) list \<Rightarrow> pool \<Rightarrow> pool" where
  "run_pool schedule p = foldl (\<lambda>q t. step t q) p schedule"

text \<open>The workers inside the block, and those of them inside the fetcher.\<close>

fun holds_unit :: "phase \<Rightarrow> bool" where
  "holds_unit Queued = False"
| "holds_unit Released = False"
| "holds_unit ph = True"

definition holding :: "pool \<Rightarrow> nat" where
  "holding p = length (filter holds_unit (workers p))"

definition in_fetch :: "pool \<Rightarrow> nat" where
  "in_fetch p = length (filter (\<lambda>ph. ph = Fetching) (workers p))"

text \<open>A schedule for three workers on two units: all three go for the block, then step again.\<close>

definition busy_schedule :: "(nat \<times> (exn + response option)) list" where
  "busy_schedule = [(0, Inr None), (1, Inr None), (2, Inr None),
                    (0, Inr None), (1, Inr None), (2, Inr None)]"

section \<open>A small concrete world, for runs on concrete inputs\<close>

text \<open>
  Documents are trees of elements (tag, attributes, children) and character data.
  \<^verbatim>\<open>get_text()\<close> is the character data below an element, in document order, and
  \<^verbatim>\<open>select\<close> searches the descendants of an element, in document order.
\<close>

datatype dom = Element string "(string \<times> string) list" "dom list" | Chars string

fun dom_text :: "dom \<Rightarrow> string" where
  "dom_text (Chars s) = s"
| "dom_text (Element tag attrs kids) = concat (map dom_text kids)"

fun descendants :: "dom \<Rightarrow> dom list" where
  "descendants (Chars s) = []"
| "descendants (Element tag attrs kids) = concat (map (\<lambda>k. k # descendants k) kids)"

text \<open>The words of a \<^verbatim>\<open>class\<close> attribute: the parser splits its value at white
  space.\<close>

fun words_from :: "string \<Rightarrow> string \<Rightarrow> string list" where
  "words_from word [] = (if word = [] then [] else [word])"
| "words_from word (c # cs) =
     (if is_space c then (if word = [] then [] else [word]) @ words_from [] cs
      else words_from (word @ [c]) cs)"

definition class_names :: "string \<Rightarrow> string list" where
  "class_names v = words_from [] v"

text \<open>
  The selectors the scraper uses have four shapes: an attribute with a value, a class, a
  tag with a class, and a tag; and one combinator, \<open>A B\<close>: an element for \<open>B\<close> below an
  element for \<open>A\<close>.
\<close>

datatype simple_selector =
  Attr_is string string | Class_is string | Tag_class string string | Tag_is string

fun has_class :: "(string \<times> string) list \<Rightarrow> string \<Rightarrow> bool" where
  "has_class attrs c =
     (case map_of attrs ''class'' of None \<Rightarrow> False | Some v \<Rightarrow> c \<in> set (class_names v))"

fun matches :: "simple_selector \<Rightarrow> dom \<Rightarrow> bool" where
  "matches sel (Chars s) = False"
| "matches (Attr_is a v) (Element tag attrs kids) = (map_of attrs a = Some v)"
| "matches (Class_is c) (Element tag attrs kids) = has_class attrs c"
| "matches (Tag_class t c) (Element tag attrs kids) = (tag = t \<and> has_class attrs c)"
| "matches (Tag_is t) (Element tag attrs kids) = (tag = t)"

datatype css = Simple simple_selector | Below simple_selector simple_selector

text \<open>The selector strings of \<^verbatim>\<open>REVIEW_SELECTORS\<close> and the two fallbacks of
  \<^verbatim>\<open>_extract_reviews_from_page\<close>, read as selectors.\<close>

definition css_of :: "string \<Rightarrow> css option" where
  "css_of = map_of
     [(''[data-hook='review']'', Simple (Attr_is ''data-hook'' ''review'')),
      (''[data-hook='review-title'] span'', Below (Attr_is ''data-hook'' ''review-title'') (Tag_is ''span'')),
      (''[data-hook='review-body'] span'', Below (Attr_is ''data-hook'' ''review-body'') (Tag_is ''span'')),
      (''[data-hook='review-date']'', Simple (Attr_is ''data-hook'' ''review-date'')),
      (''[data-hook='avp-badge']'', Simple (Attr_is ''data-hook'' ''avp-badge'')),
      (''.a-profile-name'', Simple (Class_is ''a-profile-name'')),
      (''i.review-rating'', Simple (Tag_class ''i'' ''review-rating'')),
      (''[data-hook='review-title']'', Simple (Attr_is ''data-hook'' ''review-title'')),
      (''[data-hook='review-body']'', Simple (Attr_is ''data-hook'' ''review-body''))]"

definition dom_select :: "dom \<Rightarrow> string \<Rightarrow> dom list" where
  "dom_select e sel =
     (case css_of sel of
        None \<Rightarrow> []
      | Some (Simple s) \<Rightarrow> filter (matches s) (descendants e)
      | Some (Below a b) \<Rightarrow>
          concat (map (\<lambda>x. filter (matches b) (descendants x)) (filter (matches a) (descendants e))))"

definition dom_select_one :: "dom \<Rightarrow> string \<Rightarrow> dom option" where
  "dom_select_one e sel = (case dom_select e sel of [] \<Rightarrow> None | k # ks \<Rightarrow> Some k)"

text \<open>
  Two page bodies and the documents the \<^verbatim>\<open>lxml\<close> parser makes of them: a page with one
  review (it has a title without a \<^verbatim>\<open>span\<close>, a rating and the verified-purchase badge,
  and neither body, date nor author), and a page without reviews.
\<close>

definition review_page :: string where
  "review_page =
     ''<div data-hook='review'><a data-hook='review-title'>  Great  </a>''
     @ ''<i class='a-icon review-rating'>4.5 out of 5 stars</i>''
     @ ''<span data-hook='avp-badge'>Verified Purchase</span></div>''"

definition review_element :: dom where
  "review_element =
     Element ''div'' [(''data-hook'', ''review'')]
       [Element ''a'' [(''data-hook'', ''review-title'')] [Chars ''  Great  ''],
        Element ''i'' [(''class'', ''a-icon review-rating'')] [Chars ''4.5 out of 5 stars''],
        Element ''span'' [(''data-hook'', ''avp-badge'')] [Chars ''Verified Purchase'']]"

definition in_body :: "dom list \<Rightarrow> dom" where
  "in_body kids = Element ''[document]'' [] [Element ''html'' [] [Element ''body'' [] kids]]"

definition empty_page :: string where
  "empty_page = ''<p>nothing here</p>''"

text \<open>The parser of the concrete world knows these two bodies; no run below parses
  another one.\<close>

definition known_documents :: "(string \<times> dom) list" where
  "known_documents =
     [(review_page, in_body [review_element]),
      (empty_page, in_body [Element ''p'' [] [Chars ''nothing here'']])]"

definition toy_parse :: "string \<Rightarrow> dom" where
  "toy_parse html = (case map_of known_documents html of Some d \<Rightarrow> d | None \<Rightarrow> in_body [])"

text \<open>The decimal value of a string of digits with an optional fraction; it is what
  \<^verbatim>\<open>float\<close> returns when that value is a double, as \<open>4.5\<close> is.\<close>

definition digits_value :: "string \<Rightarrow> nat" where
  "digits_value ds = foldl (\<lambda>v c. 10 * v + ((of_char c :: nat) - 48)) 0 ds"

definition decimal_value :: "string \<Rightarrow> real" where
  "decimal_value s =
     (let whole = takeWhile is_digit s; frac = drop (length whole + 1) s
      in real (digits_value whole) + real (digits_value frac) / 10 ^ length frac)"

text \<open>The world in which the \<open>n\<close>-th GET does \<open>net n\<close>, the \<open>n\<close>-th clock reading is
  \<open>clock n\<close>, and every random draw is one half.\<close>

definition toy_world :: "(nat \<Rightarrow> http_outcome) \<Rightarrow> (nat \<Rightarrow> string) \<Rightarrow> (string, dom) world" where
  "toy_world net clock =
     \<lparr>random = (\<lambda>n. 1 / 2), http_get = (\<lambda>n s url. net n), now = clock,
      new_session = ''anonymous'', parse = toy_parse, select = dom_select,
      select_one = dom_select_one, get_text = dom_text, to_float = decimal_value\<rparr>"

definition io0 :: "review io" where
  "io0 = \<lparr>draws = 0, gets = 0, clock_reads = 0, fetch_calls = 0, trace = [], csv_files = []\<rparr>"

definition ok :: "string \<Rightarrow> http_outcome" where
  "ok body = Answer \<lparr>status_code = 200, resp_text = body\<rparr>"

definition status :: "int \<Rightarrow> http_outcome" where
  "status code = Answer \<lparr>status_code = code, resp_text = []\<rparr>"

text \<open>A server that answers 503, then fails at the network level, then answers 200.\<close>

definition flaky_net :: "nat \<Rightarrow> http_outcome" where
  "flaky_net n = (if n = 0 then status 503 else if n = 1 then RequestException else ok ''hello'')"

definition toy_scraper :: "string review_scraper" where
  "toy_scraper = \<lparr>session = Some ''cookies'', max_threads = MAX_THREADS, reviews_queue = [],
                   total_reviews = 0, successful_requests = 0, failed_requests = 0\<rparr>"

text \<open>Servers: one that never answers, one that answers every GET with a login wall, and
  one that answers the first GET, fails the next three and answers from then on.\<close>

definition dead_net :: "nat \<Rightarrow> http_outcome" where
  "dead_net n = RequestException"

definition wall_net :: "nat \<Rightarrow> http_outcome" where
  "wall_net n = ok ''<h1>Sign in to continue</h1>''"


definition product_page :: string where
  "product_page = ''https://www.amazon.in/dp/B0ABCDEFGH''"

definition no_clock :: "nat \<Rightarrow> string" where
  "no_clock n = []"


text \<open>Two clocks, one that advances by a second at every reading and one that stands
  still.\<close>

definition ticking_clock :: "nat \<Rightarrow> string" where
  "ticking_clock n = ''2024-01-01 00:00:0'' @ str_nat n"

definition frozen_clock :: "nat \<Rightarrow> string" where
  "frozen_clock n = ''2024-01-01 00:00:00''"

text \<open>A server that answers every GET with a page without reviews.\<close>

definition empty_net :: "nat \<Rightarrow> http_outcome" where
  "empty_net n = ok empty_page"

section \<open>Facts about ranges and the task grid\<close>

lemma py_range_up: "py_range i stop 1 = [i..stop - 1]"
proof (induction "nat (stop - i)" arbitrary: i)
  case 0
  then show ?case by (simp add: py_range.simps)
next
  case (Suc k)
  then have lt: "i < stop" and k: "k = nat (stop - (i + 1))" by linarith+
  have "py_range i stop 1 = i # py_range (i + 1) stop 1"
    using lt by (subst py_range.simps) simp
  also have "\<dots> = i # [i + 1..stop - 1]"
    using Suc.hyps(1) [OF k] by simp
  also have "\<dots> = [i..stop - 1]"
    using lt by (simp add: upto_rec1)
  finally show ?case .
qed

lemma py_range_stars: "py_range 5 0 (- 1) = [5, 4, 3, 2, 1]"
  by (simp add: py_range.simps)

lemma foldl_snoc_map: "foldl (\<lambda>acc x. acc @ [f x]) acc xs = acc @ map f xs"
  by (induction xs arbitrary: acc) simp_all

lemma append_pages_eq:
  "append_pages n acc s = acc @ map (Pair s) [1..n]"
  by (simp add: append_pages_def py_range_up foldl_snoc_map)

lemma build_tasks_eq:
  "build_tasks n = concat (map (\<lambda>s. map (Pair s) [1..n]) [5, 4, 3, 2, 1])"
  by (simp add: build_tasks_def py_range_stars append_pages_eq)

lemma length_upto_pos: "0 \<le> n \<Longrightarrow> length [1..n] = nat n"
  by simp

lemma build_tasks_length: "0 \<le> n \<Longrightarrow> length (build_tasks n) = nat (5 * n)"
  by (simp add: build_tasks_eq)

lemma build_tasks_set: "set (build_tasks n) = {1..5} \<times> {1..n}"
proof -
  have "{1..5::int} = {5, 4, 3, 2, 1}" by auto
  then show ?thesis by (auto simp: build_tasks_eq)
qed

lemma build_tasks_distinct: "distinct (build_tasks n)"
  by (auto simp: build_tasks_eq distinct_map inj_on_def)

lemma concat_nth_uniform:
  assumes "\<And>x. x \<in> set xs \<Longrightarrow> length (f x) = m" and "i < length xs * m"
  shows "concat (map f xs) ! i = f (xs ! (i div m)) ! (i mod m)"
  using assms
proof (induction xs arbitrary: i)
  case Nil
  then show ?case by simp
next
  case (Cons x xs)
  have lx: "length (f x) = m" using Cons.prems(1) by simp
  show ?case
  proof (cases "i < m")
    case True
    then show ?thesis by (simp add: nth_append lx)
  next
    case False
    then have ge: "m \<le> i" by simp
    have m0: "0 < m" using Cons.prems(2) by (cases m) simp_all
    have lt: "i - m < length xs * m" using Cons.prems(2) ge by simp
    have ih: "concat (map f xs) ! (i - m) = f (xs ! ((i - m) div m)) ! ((i - m) mod m)"
      using Cons.IH [OF _ lt] Cons.prems(1) by simp
    have dv: "i div m = Suc ((i - m) div m)" using ge m0 by (simp add: le_div_geq)
    have md: "i mod m = (i - m) mod m" using ge by (simp add: le_mod_geq)
    show ?thesis using False ih by (simp add: nth_append lx dv md)
  qed
qed

lemma stars_nth: "k < 5 \<Longrightarrow> [5, 4, 3, 2, 1 :: int] ! k = 5 - int k"
proof -
  assume "k < 5"
  then consider "k = 0" | "k = 1" | "k = 2" | "k = 3" | "k = 4" by linarith
  then show ?thesis by cases simp_all
qed

lemma build_tasks_nth:
  assumes n: "1 \<le> n" and i: "i < nat (5 * n)"
  shows "build_tasks n ! i = (5 - int (i div nat n), 1 + int (i mod nat n))"
proof -
  define m where "m = nat n"
  have m: "0 < m" using n by (simp add: m_def)
  have i5: "i < 5 * m" using i n by (simp add: m_def nat_mult_distrib)
  have d: "i div m < 5" using i5 m by (simp add: less_mult_imp_div_less mult.commute)
  have jm: "i mod m < m" using m by simp
  have "build_tasks n ! i = map (Pair ([5, 4, 3, 2, 1] ! (i div m))) [1..n] ! (i mod m)"
    unfolding build_tasks_eq
    by (rule concat_nth_uniform) (use i5 in \<open>simp_all add: m_def\<close>)
  also have "\<dots> = (5 - int (i div m), 1 + int (i mod m))"
    using jm stars_nth [OF d] by (simp add: m_def)
  finally show ?thesis by (simp add: m_def)
qed

section \<open>Facts about the retry loop\<close>

lemma attempt_eq:
  "attempt w s url io =
     (http_get w (gets io) s url,
      io\<lparr>draws := draws io + 1, gets := gets io + 1,
         trace := trace io @ [Sleep Delay (delay_of w (draws io)), Get url]\<rparr>)"
  by (simp add: attempt_def get_random_delay_def uniform_def session_get_def sleep_def delay_of_def)

lemma backoff_wait_eq:
  "backoff_wait w retry io =
     io\<lparr>draws := draws io + 1, trace := trace io @ [Sleep Backoff (2 ^ retry + random w (draws io))]\<rparr>"
  by (simp add: backoff_wait_def uniform_def sleep_def)

lemma after_rounds_0: "after_rounds w url retry 0 io = io"
  by (simp add: after_rounds_def rounds_trace_def)

lemma backoff_loop_fail_step:
  assumes "int retry < max_retries" and "failed_attempt (http_get w (gets io) s url)"
  shows "backoff_loop w url s max_retries retry io =
         backoff_loop w url s max_retries (Suc retry) (after_rounds w url retry 1 io)"
  using assms
  by (cases io, subst backoff_loop.simps)
     (auto simp: attempt_eq backoff_wait_eq failed_attempt_def after_rounds_def rounds_trace_def
        round_trace_def split: http_outcome.splits)

lemma after_rounds_Suc:
  "after_rounds w url retry (Suc k) io = after_rounds w url (retry + k) 1 (after_rounds w url retry k io)"
  by (simp add: after_rounds_def rounds_trace_def)

lemma backoff_loop_fail_prefix:
  assumes "int (retry + k) \<le> max_retries"
      and "\<forall>j<k. failed_attempt (http_get w (gets io + j) s url)"
  shows "backoff_loop w url s max_retries retry io =
         backoff_loop w url s max_retries (retry + k) (after_rounds w url retry k io)"
  using assms
proof (induction k)
  case 0
  then show ?case by (simp add: after_rounds_0)
next
  case (Suc k)
  have lt: "int (retry + k) < max_retries" using Suc.prems(1) by simp
  have f: "failed_attempt (http_get w (gets (after_rounds w url retry k io)) s url)"
    using Suc.prems(2) by (simp add: after_rounds_def)
  have "backoff_loop w url s max_retries retry io =
        backoff_loop w url s max_retries (retry + k) (after_rounds w url retry k io)"
    using Suc.IH Suc.prems by simp
  also have "\<dots> = backoff_loop w url s max_retries (Suc (retry + k))
                     (after_rounds w url (retry + k) 1 (after_rounds w url retry k io))"
    by (rule backoff_loop_fail_step [OF lt f])
  finally show ?case by (simp only: after_rounds_Suc add_Suc_right)
qed

lemma backoff_loop_exhausted:
  "max_retries \<le> int retry \<Longrightarrow> backoff_loop w url s max_retries retry io = (Inr None, io)"
  by (subst backoff_loop.simps) simp

lemma backoff_loop_success:
  assumes "int retry < max_retries" and "http_get w (gets io) s url = Answer r" and "status_code r = 200"
  shows "backoff_loop w url s max_retries retry io =
         (Inr (Some r), io\<lparr>draws := draws io + 1, gets := gets io + 1,
                            trace := trace io @ [Sleep Delay (delay_of w (draws io)), Get url]\<rparr>)"
  using assms by (subst backoff_loop.simps) (simp add: attempt_eq)


lemma backoff_loop_gets:
  "gets (snd (backoff_loop w url s max_retries retry io)) \<le> gets io + (nat max_retries - retry)"
proof (induction w url s max_retries retry io rule: backoff_loop.induct)
  case (1 w url sess max_retries retry io)
  obtain out io1 where a: "attempt w sess url io = (out, io1)" by (cases "attempt w sess url io")
  then have g1: "gets io1 = gets io + 1" by (auto simp: attempt_eq)
  have bw: "gets (backoff_wait w (Suc retry) io1) = gets io + 1"
    using g1 by (simp add: backoff_wait_eq)
  show ?case
  proof (cases "int retry < max_retries")
    case False
    then show ?thesis by (subst backoff_loop.simps) simp
  next
    case True
    then have more: "Suc (nat max_retries - Suc retry) = nat max_retries - retry" by linarith
    show ?thesis
    proof (cases out)
      case (Answer r)
      show ?thesis
      proof (cases "status_code r = 200")
        case ok: True
        then show ?thesis using True Answer more a g1
          by (subst backoff_loop.simps) simp
      next
        case bad: False
        have "gets (snd (backoff_loop w url sess max_retries (Suc retry) (backoff_wait w (Suc retry) io1)))
              \<le> gets (backoff_wait w (Suc retry) io1) + (nat max_retries - Suc retry)"
          using "1.IH"(1) [OF True a [symmetric] Answer bad] .
        then show ?thesis using True Answer bad more a bw
          by (subst backoff_loop.simps) simp
      qed
    next
      case RequestException
      have "gets (snd (backoff_loop w url sess max_retries (Suc retry) (backoff_wait w (Suc retry) io1)))
              \<le> gets (backoff_wait w (Suc retry) io1) + (nat max_retries - Suc retry)"
        using "1.IH"(2) [OF True a [symmetric] RequestException] .
      then show ?thesis using True RequestException more a bw
        by (subst backoff_loop.simps) simp
    next
      case OtherException
      then show ?thesis using True more a g1
        by (subst backoff_loop.simps) simp
    qed
  qed
qed

lemma backoff_time_append: "backoff_time (xs @ ys) = backoff_time xs + backoff_time ys"
  by (simp add: backoff_time_def)

lemma rounds_trace_Suc:
  "rounds_trace w url d retry (Suc k) =
     rounds_trace w url d retry k @ round_trace w url (d + 2 * k) (retry + k)"
  by (simp add: rounds_trace_def)

lemma backoff_time_rounds:
  "backoff_time (rounds_trace w url d 0 k) = (\<Sum>j<k. 2 ^ Suc j + random w (d + 2 * j + 1))"
proof (induction k)
  case 0
  then show ?case by (simp add: rounds_trace_def backoff_time_def)
next
  case (Suc k)
  have "backoff_time (round_trace w url (d + 2 * k) k) = 2 ^ Suc k + random w (d + 2 * k + 1)"
    by (simp add: round_trace_def backoff_time_def)
  then show ?case using Suc.IH by (simp add: rounds_trace_Suc backoff_time_append)
qed

lemma backoff_time_rounds_ge:
  assumes "\<forall>n. 0 \<le> random w n"
  shows "(\<Sum>j<k. 2 ^ Suc j) \<le> backoff_time (rounds_trace w url d 0 k)"
proof -
  have "(\<Sum>j<k. (2::real) ^ Suc j) \<le> (\<Sum>j<k. 2 ^ Suc j + random w (d + 2 * j + 1))"
    by (rule sum_mono) (use assms in simp)
  then show ?thesis by (simp only: backoff_time_rounds)
qed

lemma mrwb_success:
  assumes f: "\<forall>j<k. failed_attempt (http_get w (gets io + j) (session_or_new w sess) url)"
      and lt: "int k < max_retries"
      and a: "http_get w (gets io + k) (session_or_new w sess) url = Answer r"
      and ok: "status_code r = 200"
  shows "make_request_with_backoff w url sess max_retries io =
         (Inr (Some r),
          io\<lparr>draws := draws io + 2 * k + 1, gets := gets io + k + 1,
             fetch_calls := fetch_calls io + 1,
             trace := trace io @ rounds_trace w url (draws io) 0 k
                      @ [Sleep Delay (delay_of w (draws io + 2 * k)), Get url]\<rparr>)"
proof -
  let ?io1 = "io\<lparr>fetch_calls := fetch_calls io + 1\<rparr>"
  have f1: "\<forall>j<k. failed_attempt (http_get w (gets ?io1 + j) (session_or_new w sess) url)"
    using f by simp
  have le: "int (0 + k) \<le> max_retries" using lt by simp
  have "make_request_with_backoff w url sess max_retries io =
        backoff_loop w url (session_or_new w sess) max_retries (0 + k) (after_rounds w url 0 k ?io1)"
    unfolding make_request_with_backoff_def by (rule backoff_loop_fail_prefix [OF le f1])
  also have "\<dots> = (Inr (Some r),
          (after_rounds w url 0 k ?io1)\<lparr>draws := draws (after_rounds w url 0 k ?io1) + 1,
             gets := gets (after_rounds w url 0 k ?io1) + 1,
             trace := trace (after_rounds w url 0 k ?io1)
                      @ [Sleep Delay (delay_of w (draws (after_rounds w url 0 k ?io1))), Get url]\<rparr>)"
    by (rule backoff_loop_success) (use lt a ok in \<open>simp_all add: after_rounds_def\<close>)
  finally show ?thesis by (cases io) (simp add: after_rounds_def)
qed

lemma mrwb_exhausted:
  assumes f: "\<forall>j<k. failed_attempt (http_get w (gets io + j) (session_or_new w sess) url)"
      and eq: "int k = max_retries"
  shows "make_request_with_backoff w url sess max_retries io =
         (Inr None,
          io\<lparr>draws := draws io + 2 * k, gets := gets io + k,
             fetch_calls := fetch_calls io + 1,
             trace := trace io @ rounds_trace w url (draws io) 0 k\<rparr>)"
proof -
  let ?io1 = "io\<lparr>fetch_calls := fetch_calls io + 1\<rparr>"
  have f1: "\<forall>j<k. failed_attempt (http_get w (gets ?io1 + j) (session_or_new w sess) url)"
    using f by simp
  have le: "int (0 + k) \<le> max_retries" using eq by simp
  have "make_request_with_backoff w url sess max_retries io =
        backoff_loop w url (session_or_new w sess) max_retries (0 + k) (after_rounds w url 0 k ?io1)"
    unfolding make_request_with_backoff_def by (rule backoff_loop_fail_prefix [OF le f1])
  also have "\<dots> = (Inr None, after_rounds w url 0 k ?io1)"
    by (rule backoff_loop_exhausted) (use eq in simp)
  finally show ?thesis by (cases io) (simp add: after_rounds_def)
qed

lemma mrwb_gets:
  "gets (snd (make_request_with_backoff w url sess max_retries io)) \<le> gets io + nat max_retries"
  using backoff_loop_gets [of w url "session_or_new w sess" max_retries 0 "io\<lparr>fetch_calls := fetch_calls io + 1\<rparr>"]
  by (simp add: make_request_with_backoff_def)

lemma all_less_2: "(\<forall>j<2::nat. P j) = (P 0 \<and> P 1)"
  by (auto simp: less_2_cases_iff)

lemma backoff_loop_frame:
  "fetch_calls (snd (backoff_loop w url s max_retries retry io)) = fetch_calls io
   \<and> clock_reads (snd (backoff_loop w url s max_retries retry io)) = clock_reads io
   \<and> csv_files (snd (backoff_loop w url s max_retries retry io)) = csv_files io"
proof (induction w url s max_retries retry io rule: backoff_loop.induct)
  case (1 w url sess max_retries retry io)
  obtain out io1 where a: "attempt w sess url io = (out, io1)" by (cases "attempt w sess url io")
  then have f1: "fetch_calls io1 = fetch_calls io \<and> clock_reads io1 = clock_reads io \<and> csv_files io1 = csv_files io"
    by (auto simp: attempt_eq)
  have bw: "fetch_calls (backoff_wait w (Suc retry) io1) = fetch_calls io
            \<and> clock_reads (backoff_wait w (Suc retry) io1) = clock_reads io
            \<and> csv_files (backoff_wait w (Suc retry) io1) = csv_files io"
    using f1 by (simp add: backoff_wait_eq)
  show ?case
  proof (cases "int retry < max_retries")
    case False
    then show ?thesis by (subst (1 2 3) backoff_loop.simps) simp
  next
    case True
    show ?thesis
    proof (cases out)
      case (Answer r)
      show ?thesis
      proof (cases "status_code r = 200")
        case ok: True
        then show ?thesis using True Answer a f1
          by (subst (1 2 3) backoff_loop.simps) simp
      next
        case bad: False
        note ih = "1.IH"(1) [OF True a [symmetric] Answer bad]
        then show ?thesis using True Answer bad a bw
          by (subst (1 2 3) backoff_loop.simps) simp
      qed
    next
      case RequestException
      note ih = "1.IH"(2) [OF True a [symmetric] RequestException]
      then show ?thesis using True RequestException a bw
        by (subst (1 2 3) backoff_loop.simps) simp
    next
      case OtherException
      then show ?thesis using True a f1
        by (subst (1 2 3) backoff_loop.simps) simp
    qed
  qed
qed

lemma mrwb_fetch_calls:
  "fetch_calls (snd (make_request_with_backoff w url sess max_retries io)) = fetch_calls io + 1"
  by (simp add: make_request_with_backoff_def backoff_loop_frame)

lemma mrwb_clock_reads:
  "clock_reads (snd (make_request_with_backoff w url sess max_retries io)) = clock_reads io"
  by (simp add: make_request_with_backoff_def backoff_loop_frame)

lemma mrwb_csv_files:
  "csv_files (snd (make_request_with_backoff w url sess max_retries io)) = csv_files io"
  by (simp add: make_request_with_backoff_def backoff_loop_frame)

section \<open>Facts about extraction, tasks and runs\<close>

lemma extract_loop_eq:
  "extract_loop w star elems (sc, io, count) =
     (sc\<lparr>reviews_queue := reviews_queue sc @ stamped w star (clock_reads io) elems\<rparr>,
      io\<lparr>clock_reads := clock_reads io + length elems\<rparr>,
      count + int (length elems))"
  by (induction elems arbitrary: sc io count)
     (simp_all add: review_data_def read_clock_def)

lemma extract_reviews_from_page_eq:
  "extract_reviews_from_page w html star (sc, io) =
     (int (length (select w (parse w html) (REVIEW_SELECTORS Container))),
      sc\<lparr>reviews_queue := reviews_queue sc
           @ stamped w star (clock_reads io) (select w (parse w html) (REVIEW_SELECTORS Container))\<rparr>,
      io\<lparr>clock_reads := clock_reads io
           + length (select w (parse w html) (REVIEW_SELECTORS Container))\<rparr>)"
  by (simp add: extract_reviews_from_page_def extract_loop_eq Let_def)

lemma length_stamped: "length (stamped w star c elems) = length elems"
  by (induction elems arbitrary: c) simp_all

lemma undated_stamped: "map undated (stamped w star c elems) = map undated (stamped w star c' elems)"
  by (induction elems arbitrary: c c') (simp_all add: undated_def review_fields_def Let_def)



lemma product_page_id: "extract_product_id product_page = Some ''B0ABCDEFGH''"
  by (simp add: product_page_def extract_product_id_def match_here_def is_id_char_def
        is_upper_def is_digit_def)

lemma toy_session: "session toy_scraper = Some ''cookies''"
  by (simp add: toy_scraper_def)

lemma session_or_new_Some [simp]: "session_or_new w (Some s) = s"
  by (simp add: session_or_new_def)

lemma dead_canary:
  "make_request_with_backoff (toy_world dead_net no_clock) url (Some ''cookies'') 3 io
     = (Inr None, io\<lparr>draws := draws io + 2 * 3, gets := gets io + 3,
             fetch_calls := fetch_calls io + 1,
             trace := trace io @ rounds_trace (toy_world dead_net no_clock) url (draws io) 0 3\<rparr>)"
  by (rule mrwb_exhausted) (simp_all add: toy_world_def dead_net_def failed_attempt_def)

lemma wall_canary:
  "make_request_with_backoff (toy_world wall_net no_clock) url (Some ''cookies'') 3 io
     = (Inr (Some \<lparr>status_code = 200, resp_text = ''<h1>Sign in to continue</h1>''\<rparr>),
        io\<lparr>draws := draws io + 2 * 0 + 1, gets := gets io + 0 + 1,
             fetch_calls := fetch_calls io + 1,
             trace := trace io @ rounds_trace (toy_world wall_net no_clock) url (draws io) 0 0
                      @ [Sleep Delay (delay_of (toy_world wall_net no_clock) (draws io + 2 * 0)), Get url]\<rparr>)"
  by (rule mrwb_success) (simp_all add: toy_world_def wall_net_def ok_def)

lemma wall_blocked: "soft_blocked ''<h1>Sign in to continue</h1>''"
  by (simp add: soft_blocked_def)

lemma scrape_reviews_completes:
  assumes "session sc = Some s"
      and "extract_product_id product_url = Some product_id"
      and "make_request_with_backoff w (canary_url product_id) (Some s) 3 io = (Inr (Some r0), io1)"
      and "\<not> soft_blocked (resp_text r0)"
      and "0 < max_threads sc"
  shows "scrape_reviews w sc product_url max_pages_per_star io =
         (Inr (reviews_queue (fst (run_tasks w product_id (build_tasks max_pages_per_star) (sc, io1)))),
          (fst (run_tasks w product_id (build_tasks max_pages_per_star) (sc, io1)))\<lparr>reviews_queue := []\<rparr>,
          save_csv product_id
            (reviews_queue (fst (run_tasks w product_id (build_tasks max_pages_per_star) (sc, io1))))
            (snd (run_tasks w product_id (build_tasks max_pages_per_star) (sc, io1))))"
  using assms by (simp add: scrape_reviews_def drain_def split: prod.splits)

lemma build_tasks_1: "build_tasks 1 = [(5, 1), (4, 1), (3, 1), (2, 1), (1, 1)]"
  by (simp add: build_tasks_eq)



lemma new_reviews_appended [simp]:
  "new_reviews sc (sc\<lparr>reviews_queue := reviews_queue sc @ xs\<rparr>) = xs"
  by (simp add: new_reviews_def)

lemma stamped_cong:
  "(\<forall>i<length elems. now w (c + i) = now w (c' + i)) \<Longrightarrow>
   stamped w star c elems = stamped w star c' elems"
proof (induction elems arbitrary: c c')
  case Nil
  then show ?case by simp
next
  case (Cons e es)
  have "now w c = now w c'" using Cons.prems by force
  moreover have "\<forall>i<length es. now w (Suc c + i) = now w (Suc c' + i)"
    using Cons.prems by force
  ultimately show ?case using Cons.IH by simp
qed

lemma stamped_dates:
  "map extracted_date (stamped w star c elems) = map (now w) [c..<c + length elems]"
proof (induction elems arbitrary: c)
  case Nil
  then show ?case by simp
next
  case (Cons e es)
  have "[c..<c + length (e # es)] = c # [Suc c..<Suc c + length es]"
    by (simp add: upt_rec)
  then show ?case using Cons.IH by (simp add: review_fields_def Let_def)
qed

lemma review_page_not_empty_page: "review_page \<noteq> empty_page"
  by (simp add: review_page_def empty_page_def)

lemma parse_review_page: "toy_parse review_page = in_body [review_element]"
  by (simp add: toy_parse_def known_documents_def)

lemma parse_empty_page: "toy_parse empty_page = in_body [Element ''p'' [] [Chars ''nothing here'']]"
  using review_page_not_empty_page by (simp add: toy_parse_def known_documents_def)

lemma css_container: "css_of (REVIEW_SELECTORS Container) = Some (Simple (Attr_is ''data-hook'' ''review''))"
  by (simp add: css_of_def)

lemma toy_review_page_elems:
  "select (toy_world net clock) (parse (toy_world net clock) review_page) (REVIEW_SELECTORS Container)
   = [review_element]"
proof -
  have "dom_select (in_body [review_element]) (REVIEW_SELECTORS Container) = [review_element]"
    unfolding dom_select_def css_container
    by (simp add: in_body_def review_element_def)
  then show ?thesis by (simp add: toy_world_def parse_review_page del: REVIEW_SELECTORS.simps)
qed

lemma toy_empty_page_elems:
  "select (toy_world net clock) (parse (toy_world net clock) empty_page) (REVIEW_SELECTORS Container) = []"
proof -
  have "dom_select (in_body [Element ''p'' [] [Chars ''nothing here'']]) (REVIEW_SELECTORS Container) = []"
    unfolding dom_select_def css_container
    by (simp add: in_body_def)
  then show ?thesis by (simp add: toy_world_def parse_empty_page del: REVIEW_SELECTORS.simps)
qed

lemma class_names_rating: "class_names ''a-icon review-rating'' = [''a-icon'', ''review-rating'']"
  by (simp add: class_names_def is_space_def)

lemma review_element_title:
  "select_or (toy_world net clock) review_element (REVIEW_SELECTORS Title) ''[data-hook='review-title']''
   = Some (Element ''a'' [(''data-hook'', ''review-title'')] [Chars ''  Great  ''])"
  by (simp add: select_or_def toy_world_def dom_select_one_def dom_select_def css_of_def
        review_element_def)

lemma review_element_text:
  "select_or (toy_world net clock) review_element (REVIEW_SELECTORS Text) ''[data-hook='review-body']''
   = None"
  by (simp add: select_or_def toy_world_def dom_select_one_def dom_select_def css_of_def
        review_element_def)

lemma review_element_others:
  "select_one (toy_world net clock) review_element (REVIEW_SELECTORS Date) = None"
  "select_one (toy_world net clock) review_element (REVIEW_SELECTORS Author) = None"
  "select_one (toy_world net clock) review_element (REVIEW_SELECTORS Verified)
   = Some (Element ''span'' [(''data-hook'', ''avp-badge'')] [Chars ''Verified Purchase''])"
  by (simp_all add: toy_world_def dom_select_one_def dom_select_def css_of_def review_element_def
        class_names_rating)

lemma review_element_rating:
  "extracted_rating (toy_world net clock) review_element 5 = 9 / 2"
proof -
  have sel: "select_one (toy_world net clock) review_element (REVIEW_SELECTORS Rating)
             = Some (Element ''i'' [(''class'', ''a-icon review-rating'')] [Chars ''4.5 out of 5 stars''])"
    by (simp add: toy_world_def dom_select_one_def dom_select_def css_of_def review_element_def
          class_names_rating)
  have same: "strip ''4.5 out of 5 stars'' = ''4.5 out of 5 stars''"
    by (simp add: strip_def is_space_def)
  have num: "search_number ''4.5 out of 5 stars'' = Some ''4.5''"
    by (simp add: number_here_def is_digit_def)
  have val: "decimal_value ''4.5'' = 9 / 2"
    by (simp add: decimal_value_def digits_value_def is_digit_def)
  have gt: "get_text (toy_world net clock)
              (Element ''i'' [(''class'', ''a-icon review-rating'')] [Chars ''4.5 out of 5 stars''])
            = ''4.5 out of 5 stars''"
    by (simp add: toy_world_def)
  have found: "search_number (strip (get_text (toy_world net clock)
                 (Element ''i'' [(''class'', ''a-icon review-rating'')] [Chars ''4.5 out of 5 stars''])))
               = Some ''4.5''"
    unfolding gt same by (rule num)
  have tf: "to_float (toy_world net clock) ''4.5'' = 9 / 2"
    by (simp add: toy_world_def val)
  show ?thesis
    by (simp add: extracted_rating_def sel found tf
          del: REVIEW_SELECTORS.simps search_number.simps)
qed

lemma toy_review_fields:
  "review_fields (toy_world net clock) review_element 5 stamp
   = \<lparr>star_rating = 9 / 2, title = ''Great'', review_text = [], date = [], verified = True,
      author = [], extracted_date = stamp\<rparr>"
proof -
  have great: "strip ''  Great  '' = ''Great''" by (simp add: strip_def is_space_def)
  have gt: "get_text (toy_world net clock) = dom_text" by (simp add: toy_world_def)
  show ?thesis
    by (simp add: review_fields_def review_element_title review_element_text review_element_others
          review_element_rating stripped_text_def gt great del: REVIEW_SELECTORS.simps)
qed

lemma toy_extract:
  "extract_reviews_from_page (toy_world net clock) review_page star (sc, io)
   = (1, sc\<lparr>reviews_queue := reviews_queue sc
                 @ [review_fields (toy_world net clock) review_element star (clock (clock_reads io))]\<rparr>,
      io\<lparr>clock_reads := clock_reads io + 1\<rparr>)"
proof -
  have n: "now (toy_world net clock) = clock" by (simp add: toy_world_def)
  show ?thesis
    by (simp add: extract_reviews_from_page_eq toy_review_page_elems n del: REVIEW_SELECTORS.simps)
qed

lemma first_pages_delay_fetch_calls:
  "fetch_calls (first_pages_delay w page io) = fetch_calls io"
  by (simp add: first_pages_delay_def get_random_delay_def uniform_def sleep_def)

lemma steady_fetch:
  assumes "\<forall>n s url. http_get w n s url = Answer r0" and "status_code r0 = 200"
  shows "fst (make_request_with_backoff w url sess 3 io) = Inr (Some r0)"
  using mrwb_success [of 0 w io sess url 3 r0] assms by simp

lemma steady_page:
  assumes "\<forall>n s url. http_get w n s url = Answer r0" and "status_code r0 = 200"
      and "\<not> soft_blocked (resp_text r0)"
      and "select w (parse w (resp_text r0)) (REVIEW_SELECTORS Container) = []"
      and "STAR_FILTERS star \<noteq> None"
  shows "fst (snd (scrape_single_page w product_id star page (sc, io))) = count_success sc
       \<and> fetch_calls (snd (snd (scrape_single_page w product_id star page (sc, io)))) = fetch_calls io + 1"
proof -
  obtain f where f: "STAR_FILTERS star = Some f" using assms(5) by auto
  let ?m = "make_request_with_backoff w (reviews_url product_id f page) (session sc) 3
              (first_pages_delay w page io)"
  have r: "fst ?m = Inr (Some r0)" by (rule steady_fetch [OF assms(1,2)])
  have c: "fetch_calls (snd ?m) = fetch_calls io + 1"
    by (simp add: mrwb_fetch_calls first_pages_delay_fetch_calls)
  obtain io2 where m: "?m = (Inr (Some r0), io2)" using r by (cases ?m) simp
  then have c2: "fetch_calls io2 = fetch_calls io + 1" using c by simp
  show ?thesis
    using assms(2,3,4) c2
    by (simp add: scrape_single_page_def f m falsy_def extract_reviews_from_page_eq
          del: REVIEW_SELECTORS.simps)
qed

lemma steady_run:
  assumes "\<forall>n s url. http_get w n s url = Answer r0" and "status_code r0 = 200"
      and "\<not> soft_blocked (resp_text r0)"
      and "select w (parse w (resp_text r0)) (REVIEW_SELECTORS Container) = []"
  shows "\<forall>t \<in> set tasks. STAR_FILTERS (fst t) \<noteq> None \<Longrightarrow>
         fst (run_tasks w product_id tasks (sc, io))
           = sc\<lparr>successful_requests := successful_requests sc + int (length tasks)\<rparr>
         \<and> fetch_calls (snd (run_tasks w product_id tasks (sc, io))) = fetch_calls io + length tasks"
proof (induction tasks arbitrary: sc io)
  case Nil
  then show ?case by simp
next
  case (Cons t tasks)
  obtain star page where t: "t = (star, page)" by (cases t)
  have sf: "STAR_FILTERS star \<noteq> None" using Cons.prems t by simp
  obtain res sc1 io1 where p: "scrape_single_page w product_id star page (sc, io) = (res, sc1, io1)"
    by (cases "scrape_single_page w product_id star page (sc, io)")
  have s1: "sc1 = count_success sc" and f1: "fetch_calls io1 = fetch_calls io + 1"
    using steady_page [OF assms sf, of product_id page sc io] p by simp_all
  have ih: "fst (run_tasks w product_id tasks (sc1, io1))
           = sc1\<lparr>successful_requests := successful_requests sc1 + int (length tasks)\<rparr>
         \<and> fetch_calls (snd (run_tasks w product_id tasks (sc1, io1))) = fetch_calls io1 + length tasks"
    using Cons.IH Cons.prems by simp
  show ?case using ih by (simp add: t p s1 f1 count_success_def)
qed

lemma build_tasks_filters: "\<forall>t \<in> set (build_tasks n). STAR_FILTERS (fst t) \<noteq> None"
  by (auto simp: build_tasks_set STAR_FILTERS_def)

section \<open>Facts about the worker pool\<close>

lemma filter_update_length:
  "i < length xs \<Longrightarrow>
   length (filter P (xs[i := y])) + (if P (xs ! i) then 1 else 0)
   = length (filter P xs) + (if P y then 1 else 0)"
proof (induction xs arbitrary: i)
  case Nil
  then show ?case by simp
next
  case (Cons a xs)
  show ?case
  proof (cases i)
    case 0
    then show ?thesis by simp
  next
    case (Suc j)
    then have "j < length xs" using Cons.prems by simp
    from Cons.IH [OF this] show ?thesis using Suc by simp
  qed
qed

lemma filter_length_mono:
  "(\<And>x. P x \<Longrightarrow> Q x) \<Longrightarrow> length (filter P xs) \<le> length (filter Q xs)"
  by (induction xs) auto

lemma step_units: "semaphore (step t p) + holding (step t p) = semaphore p + holding p"
proof (cases "fst t < length (workers p)")
  case False
  then show ?thesis by (simp add: step_def)
next
  case True
  note u = filter_update_length [OF True, of holds_unit]
  show ?thesis
  proof (cases "workers p ! fst t")
    case Queued
    then show ?thesis using True u [of Holding] by (auto simp: step_def holding_def)
  next
    case Holding
    then show ?thesis using True u [of Fetching] by (auto simp: step_def holding_def)
  next
    case Fetching
    then show ?thesis using True u [of "Fetched (snd t)"] by (auto simp: step_def holding_def)
  next
    case (Fetched r)
    then show ?thesis using True u [of Released] by (auto simp: step_def holding_def)
  next
    case Released
    then show ?thesis using True by (simp add: step_def)
  qed
qed

lemma run_pool_units:
  "semaphore (run_pool schedule p) + holding (run_pool schedule p) = semaphore p + holding p"
  unfolding run_pool_def
  by (induction schedule arbitrary: p) (simp_all add: step_units)

lemma holding_start: "holding (start_pool capacity tasks) = 0"
  by (simp add: holding_def start_pool_def filter_empty_conv)

lemma in_fetch_le_holding: "in_fetch p \<le> holding p"
  unfolding in_fetch_def holding_def by (rule filter_length_mono) simp

lemma step_release:
  assumes "i < length (workers p)" and "workers p ! i = Fetched fetched"
  shows "semaphore (step (i, x) p) = semaphore p + 1 \<and> workers (step (i, x) p) ! i = Released"
  using assms by (simp add: step_def)

lemma step_fetch_needs_unit:
  assumes "i < length (workers p)" and "workers (step (i, x) p) ! i = Fetching"
  shows "workers p ! i = Holding \<or> workers p ! i = Fetching"
  using assms by (auto simp: step_def split: phase.splits if_splits)

lemma busy_pool:
  "run_pool busy_schedule (start_pool 2 [(5, 1), (5, 2), (4, 1)])
   = \<lparr>semaphore = 0, workers = [Fetching, Fetching, Queued]\<rparr>"
  by (simp add: run_pool_def busy_schedule_def start_pool_def step_def)

lemma busy_pool_next:
  "run_pool (busy_schedule @ [(0, Inl Unexpected)]) (start_pool 2 [(5, 1), (5, 2), (4, 1)])
   = \<lparr>semaphore = 0, workers = [Fetched (Inl Unexpected), Fetching, Queued]\<rparr>"
  by (simp add: run_pool_def busy_schedule_def start_pool_def step_def)

section \<open>C3: the task grid\<close>

text \<open>
  Claim C3. For every \<open>max_pages_per_star = N \<ge> 1\<close> the task list built before
  submission has exactly \<open>5N\<close> entries, all distinct; as a set it is
  \<open>{1..5} \<times> {1..N}\<close>; and it is enumerated with the star ratings descending from 5 to 1
  and, within a star, the pages ascending from 1 to \<open>N\<close>: entry \<open>i\<close> (counting from 0) is
  \<open>(5 - i div N, 1 + i mod N)\<close>.
\<close>

theorem build_tasks_grid:
  assumes "1 \<le> N"
  shows "length (build_tasks N) = nat (5 * N)
       \<and> distinct (build_tasks N)
       \<and> set (build_tasks N) = {1..5} \<times> {1..N}
       \<and> build_tasks N = concat (map (\<lambda>star. map (\<lambda>page. (star, page)) [1..N]) [5, 4, 3, 2, 1])
       \<and> (\<forall>i < nat (5 * N). build_tasks N ! i = (5 - int (i div nat N), 1 + int (i mod nat N)))"
proof -
  have "length (build_tasks N) = nat (5 * N)"
    using assms by (simp add: build_tasks_length)
  moreover have "distinct (build_tasks N)"
    by (rule build_tasks_distinct)
  moreover have "set (build_tasks N) = {1..5} \<times> {1..N}"
    by (rule build_tasks_set)
  moreover have "build_tasks N = concat (map (\<lambda>star. map (\<lambda>page. (star, page)) [1..N]) [5, 4, 3, 2, 1])"
    by (rule build_tasks_eq)
  moreover have "\<forall>i < nat (5 * N). build_tasks N ! i = (5 - int (i div nat N), 1 + int (i mod nat N))"
    using assms by (simp add: build_tasks_nth)
  ultimately show ?thesis by blast
qed

theorem build_tasks_grid_witness:
  "(1::int) \<le> 2
   \<and> length (build_tasks 2) = 10
   \<and> distinct (build_tasks 2)
   \<and> build_tasks 2 = [(5, 1), (5, 2), (4, 1), (4, 2), (3, 1), (3, 2), (2, 1), (2, 2), (1, 1), (1, 2)]
   \<and> build_tasks 2 ! 3 = (4, 2)"
proof -
  have two: "[1..2::int] = [1, 2]" by (simp add: upto_rec1)
  have h: "(1::int) \<le> 2" by simp
  note g = build_tasks_grid [OF h]
  from g have len: "length (build_tasks 2) = 10" by simp
  from g have dist: "distinct (build_tasks 2)" by blast
  from g have "build_tasks 2 = concat (map (\<lambda>star. map (\<lambda>page. (star, page)) [1..2]) [5, 4, 3, 2, 1])"
    by blast
  then have eq: "build_tasks 2 = [(5, 1), (5, 2), (4, 1), (4, 2), (3, 1), (3, 2), (2, 1), (2, 2), (1, 1), (1, 2)]"
    by (simp add: two)
  have third: "build_tasks 2 ! 3 = (4, 2)" by (simp add: eq)
  show ?thesis using h len dist eq third by blast
qed

section \<open>C4: retries and backoff of the fetcher\<close>

text \<open>
  Claim C4. For every URL and \<open>max_retries\<close>, \<^verbatim>\<open>make_request_with_backoff\<close> issues at
  most \<open>max_retries\<close> GETs. If its first \<open>k\<close> attempts fail (a status other than 200, or
  a network exception) then
  \<^item> if \<open>k < max_retries\<close> and attempt \<open>k + 1\<close> answers 200, it returns that response at
    once, after exactly \<open>k + 1\<close> GETs; before each of the \<open>k\<close> retries it has slept
    \<open>2 ^ attempt + uniform(0, 1)\<close> seconds (\<open>attempt = 1, ..., k\<close>), so that with draws that
    are not negative the backoff adds up to at least \<open>2 ^ 1 + ... + 2 ^ k\<close>;
  \<^item> if \<open>k = max_retries\<close>, it returns \<^verbatim>\<open>None\<close> after exactly \<open>max_retries\<close> GETs.
  The sleeps and GETs are given in the order they happen (\<open>rounds_trace\<close>); the code also
  sleeps the backoff after the last failed attempt, before it returns \<^verbatim>\<open>None\<close>.
  The run shown after the theorem has two failures, then success, with
  \<open>max_retries = 3\<close>: the backoff adds up to at least \<open>2 ^ 1 + 2 ^ 2\<close> seconds.
\<close>

theorem make_request_with_backoff_retries:
  assumes "\<forall>j<k. failed_attempt (http_get w (gets io + j) (session_or_new w sess) url)"
  shows "gets (snd (make_request_with_backoff w url sess max_retries io)) \<le> gets io + nat max_retries
       \<and> (\<forall>r. int k < max_retries
               \<and> http_get w (gets io + k) (session_or_new w sess) url = Answer r
               \<and> status_code r = 200 \<longrightarrow>
             fst (make_request_with_backoff w url sess max_retries io) = Inr (Some r)
             \<and> gets (snd (make_request_with_backoff w url sess max_retries io)) = gets io + k + 1
             \<and> trace (snd (make_request_with_backoff w url sess max_retries io))
                 = trace io @ rounds_trace w url (draws io) 0 k
                   @ [Sleep Delay (delay_of w (draws io + 2 * k)), Get url]
             \<and> ((\<forall>n. 0 \<le> random w n) \<longrightarrow>
                  backoff_time (trace io) + (\<Sum>j<k. 2 ^ Suc j)
                  \<le> backoff_time (trace (snd (make_request_with_backoff w url sess max_retries io)))))
       \<and> (int k = max_retries \<longrightarrow>
             fst (make_request_with_backoff w url sess max_retries io) = Inr None
             \<and> gets (snd (make_request_with_backoff w url sess max_retries io)) = gets io + k
             \<and> trace (snd (make_request_with_backoff w url sess max_retries io))
                 = trace io @ rounds_trace w url (draws io) 0 k)"
proof (intro conjI allI impI)
  show "gets (snd (make_request_with_backoff w url sess max_retries io)) \<le> gets io + nat max_retries"
    by (rule mrwb_gets)
next
  fix r
  assume h: "int k < max_retries
               \<and> http_get w (gets io + k) (session_or_new w sess) url = Answer r
               \<and> status_code r = 200"
  note eq = mrwb_success [OF assms, of max_retries r] 
  from h eq show "fst (make_request_with_backoff w url sess max_retries io) = Inr (Some r)" by simp
  from h eq show "gets (snd (make_request_with_backoff w url sess max_retries io)) = gets io + k + 1" by simp
  from h eq show "trace (snd (make_request_with_backoff w url sess max_retries io))
                 = trace io @ rounds_trace w url (draws io) 0 k
                   @ [Sleep Delay (delay_of w (draws io + 2 * k)), Get url]" by simp
  assume "\<forall>n. 0 \<le> random w n"
  then have "(\<Sum>j<k. 2 ^ Suc j) \<le> backoff_time (rounds_trace w url (draws io) 0 k)"
    by (rule backoff_time_rounds_ge)
  with h eq show "backoff_time (trace io) + (\<Sum>j<k. 2 ^ Suc j)
                  \<le> backoff_time (trace (snd (make_request_with_backoff w url sess max_retries io)))"
    by (simp add: backoff_time_append) (simp add: backoff_time_def)
next
  assume h: "int k = max_retries"
  note eq = mrwb_exhausted [OF assms h]
  from eq show "fst (make_request_with_backoff w url sess max_retries io) = Inr None" by simp
  from eq show "gets (snd (make_request_with_backoff w url sess max_retries io)) = gets io + k" by simp
  from eq show "trace (snd (make_request_with_backoff w url sess max_retries io))
                 = trace io @ rounds_trace w url (draws io) 0 k" by simp
qed

theorem make_request_with_backoff_retries_witness:
  "failed_attempt (http_get (toy_world flaky_net (\<lambda>n. [])) 0 ''cookies'' ''u'')
   \<and> failed_attempt (http_get (toy_world flaky_net (\<lambda>n. [])) 1 ''cookies'' ''u'')
   \<and> fst (make_request_with_backoff (toy_world flaky_net (\<lambda>n. [])) ''u'' (Some ''cookies'') 3 io0)
       = Inr (Some \<lparr>status_code = 200, resp_text = ''hello''\<rparr>)
   \<and> gets (snd (make_request_with_backoff (toy_world flaky_net (\<lambda>n. [])) ''u'' (Some ''cookies'') 3 io0)) = 3
   \<and> trace (snd (make_request_with_backoff (toy_world flaky_net (\<lambda>n. [])) ''u'' (Some ''cookies'') 3 io0))
       = [Sleep Delay (5 / 2), Get ''u'', Sleep Backoff (2 ^ 1 + 1 / 2),
          Sleep Delay (5 / 2), Get ''u'', Sleep Backoff (2 ^ 2 + 1 / 2),
          Sleep Delay (5 / 2), Get ''u'']
   \<and> 2 ^ 1 + 2 ^ 2
       \<le> backoff_time (trace (snd (make_request_with_backoff (toy_world flaky_net (\<lambda>n. [])) ''u'' (Some ''cookies'') 3 io0)))"
proof -
  let ?w = "toy_world flaky_net (\<lambda>n. [])"
  have s: "session_or_new ?w (Some ''cookies'') = ''cookies''" by (simp add: session_or_new_def)
  have f: "\<forall>j<2. failed_attempt (http_get ?w (gets io0 + j) (session_or_new ?w (Some ''cookies'')) ''u'')"
    by (simp add: all_less_2 toy_world_def flaky_net_def failed_attempt_def status_def io0_def)
  have third: "http_get ?w (gets io0 + 2) (session_or_new ?w (Some ''cookies'')) ''u''
               = Answer \<lparr>status_code = 200, resp_text = ''hello''\<rparr>"
    by (simp add: toy_world_def flaky_net_def ok_def io0_def)
  have r: "\<forall>n. 0 \<le> random ?w n" by (simp add: toy_world_def)
  note t = make_request_with_backoff_retries [OF f, of 3, THEN conjunct2, THEN conjunct1, THEN spec,
             of "\<lparr>status_code = 200, resp_text = ''hello''\<rparr>"]
  have rt: "rounds_trace ?w ''u'' 0 0 2
            = [Sleep Delay (5 / 2), Get ''u'', Sleep Backoff (2 ^ 1 + 1 / 2),
               Sleep Delay (5 / 2), Get ''u'', Sleep Backoff (2 ^ 2 + 1 / 2)]"
    by (simp add: rounds_trace_def round_trace_def delay_of_def MIN_DELAY_def MAX_DELAY_def
          toy_world_def numeral_2_eq_2)
  have d: "delay_of ?w 4 = 5 / 2"
    by (simp add: delay_of_def MIN_DELAY_def MAX_DELAY_def toy_world_def)
  have sm: "(\<Sum>j<2::nat. (2::real) ^ Suc j) = 2 ^ 1 + 2 ^ 2"
    by (simp add: numeral_2_eq_2)
  have prem: "int 2 < 3
      \<and> http_get ?w (gets io0 + 2) (session_or_new ?w (Some ''cookies'')) ''u''
          = Answer \<lparr>status_code = 200, resp_text = ''hello''\<rparr>
      \<and> status_code \<lparr>status_code = 200, resp_text = ''hello''\<rparr> = 200"
    using third by simp
  note c = t [THEN mp, OF prem]
  note c1 = c [THEN conjunct1]
  note c2 = c [THEN conjunct2, THEN conjunct1]
  note c3 = c [THEN conjunct2, THEN conjunct2, THEN conjunct1]
  note c4 = c [THEN conjunct2, THEN conjunct2, THEN conjunct2, THEN mp, OF r]
  have g: "gets (snd (make_request_with_backoff ?w ''u'' (Some ''cookies'') 3 io0)) = 3"
    using c2 by (simp add: io0_def)
  have tr: "trace (snd (make_request_with_backoff ?w ''u'' (Some ''cookies'') 3 io0))
       = [Sleep Delay (5 / 2), Get ''u'', Sleep Backoff (2 ^ 1 + 1 / 2),
          Sleep Delay (5 / 2), Get ''u'', Sleep Backoff (2 ^ 2 + 1 / 2),
          Sleep Delay (5 / 2), Get ''u'']"
    using c3 rt d by (simp add: io0_def)
  have bt: "2 ^ 1 + 2 ^ 2
       \<le> backoff_time (trace (snd (make_request_with_backoff ?w ''u'' (Some ''cookies'') 3 io0)))"
    using c4 sm by (simp add: io0_def backoff_time_def)
  show ?thesis using f s c1 g tr bt by (simp add: all_less_2 io0_def)
qed

section \<open>C10: no retries allowed\<close>

text \<open>
  Claim C10. With \<open>max_retries \<le> 0\<close> the fetcher returns \<^verbatim>\<open>None\<close> at once: no GET is
  issued and nothing is slept (the only change of the recorded state is the count of
  calls of the fetcher itself).
\<close>

theorem make_request_with_backoff_no_retries:
  assumes "max_retries \<le> 0"
  shows "make_request_with_backoff w url sess max_retries io
         = (Inr None, io\<lparr>fetch_calls := fetch_calls io + 1\<rparr>)
       \<and> gets (snd (make_request_with_backoff w url sess max_retries io)) = gets io
       \<and> trace (snd (make_request_with_backoff w url sess max_retries io)) = trace io"
  using assms by (simp add: make_request_with_backoff_def backoff_loop_exhausted)

theorem make_request_with_backoff_no_retries_witness:
  "(0::int) \<le> 0
   \<and> make_request_with_backoff (toy_world flaky_net (\<lambda>n. [])) ''u'' (Some ''cookies'') 0 io0
       = (Inr None, \<lparr>draws = 0, gets = 0, clock_reads = 0, fetch_calls = 1, trace = [], csv_files = []\<rparr>)
   \<and> make_request_with_backoff (toy_world flaky_net (\<lambda>n. [])) ''u'' None (- 1) io0
       = (Inr None, \<lparr>draws = 0, gets = 0, clock_reads = 0, fetch_calls = 1, trace = [], csv_files = []\<rparr>)"
proof -
  have a: "(0::int) \<le> 0" and b: "(- 1::int) \<le> 0" by simp_all
  show ?thesis
    using make_request_with_backoff_no_retries [OF a, of "toy_world flaky_net (\<lambda>n. [])" "''u''" "Some ''cookies''" io0]
      make_request_with_backoff_no_retries [OF b, of "toy_world flaky_net (\<lambda>n. [])" "''u''" None io0]
    by (simp add: io0_def)
qed

section \<open>C1: the canary check aborts the run\<close>

text \<open>
  Claim C1. When the access test fetch (the canary: \<^verbatim>\<open>make_request_with_backoff\<close> on the
  product's reviews URL, with the scraper's session) returns \<^verbatim>\<open>None\<close>, or returns a body
  containing a login-wall or captcha marker, \<^verbatim>\<open>scrape_reviews\<close> returns the empty table,
  leaves the scraper as it was, and the outside world is exactly as the canary fetch left
  it: one call of the fetcher has been made and no task was started. (That one call may
  issue up to three GETs, its retries.)
\<close>

theorem scrape_reviews_canary_abort:
  assumes "session sc = Some s"
      and "extract_product_id product_url = Some product_id"
      and "fst (make_request_with_backoff w (canary_url product_id) (Some s) 3 io) = Inr None
           \<or> (\<exists>r. fst (make_request_with_backoff w (canary_url product_id) (Some s) 3 io) = Inr (Some r)
                  \<and> soft_blocked (resp_text r))"
  shows "scrape_reviews w sc product_url max_pages_per_star io
           = (Inr [], sc, snd (make_request_with_backoff w (canary_url product_id) (Some s) 3 io))
       \<and> fetch_calls (snd (snd (scrape_reviews w sc product_url max_pages_per_star io)))
           = fetch_calls io + 1"
proof -
  have eq: "scrape_reviews w sc product_url max_pages_per_star io
           = (Inr [], sc, snd (make_request_with_backoff w (canary_url product_id) (Some s) 3 io))"
    using assms by (auto simp: scrape_reviews_def split: prod.splits sum.splits option.splits)
  then show ?thesis by (simp add: mrwb_fetch_calls)
qed

theorem scrape_reviews_canary_abort_witness:
  "fst (make_request_with_backoff (toy_world dead_net no_clock) (canary_url ''B0ABCDEFGH'') (Some ''cookies'') 3 io0)
     = Inr None
   \<and> fst (scrape_reviews (toy_world dead_net no_clock) toy_scraper product_page 10 io0) = Inr []
   \<and> fetch_calls (snd (snd (scrape_reviews (toy_world dead_net no_clock) toy_scraper product_page 10 io0))) = 1
   \<and> gets (snd (snd (scrape_reviews (toy_world dead_net no_clock) toy_scraper product_page 10 io0))) = 3
   \<and> soft_blocked ''<h1>Sign in to continue</h1>''
   \<and> fst (scrape_reviews (toy_world wall_net no_clock) toy_scraper product_page 10 io0) = Inr []
   \<and> fetch_calls (snd (snd (scrape_reviews (toy_world wall_net no_clock) toy_scraper product_page 10 io0))) = 1
   \<and> gets (snd (snd (scrape_reviews (toy_world wall_net no_clock) toy_scraper product_page 10 io0))) = 1"
proof -
  let ?dead = "toy_world dead_net no_clock" and ?wall = "toy_world wall_net no_clock"
  have d: "fst (make_request_with_backoff ?dead (canary_url ''B0ABCDEFGH'') (Some ''cookies'') 3 io0) = Inr None
           \<or> (\<exists>r. fst (make_request_with_backoff ?dead (canary_url ''B0ABCDEFGH'') (Some ''cookies'') 3 io0) = Inr (Some r)
                  \<and> soft_blocked (resp_text r))"
    by (simp add: dead_canary)
  have w: "fst (make_request_with_backoff ?wall (canary_url ''B0ABCDEFGH'') (Some ''cookies'') 3 io0) = Inr None
           \<or> (\<exists>r. fst (make_request_with_backoff ?wall (canary_url ''B0ABCDEFGH'') (Some ''cookies'') 3 io0) = Inr (Some r)
                  \<and> soft_blocked (resp_text r))"
    by (simp add: wall_canary wall_blocked)
  note a = scrape_reviews_canary_abort [OF toy_session product_page_id d, of 10]
  note b = scrape_reviews_canary_abort [OF toy_session product_page_id w, of 10]
  show ?thesis
    using a b by (simp add: dead_canary wall_canary wall_blocked io0_def)
qed

section \<open>C9: no session\<close>

text \<open>
  Claim C9. Called on a scraper whose session is \<^verbatim>\<open>None\<close>, \<^verbatim>\<open>scrape_reviews\<close> returns the
  empty table at once: the scraper and the outside world are unchanged, so no GET was
  issued and the fetcher was not called, not even for the canary.
\<close>

theorem scrape_reviews_no_session:
  assumes "session sc = None"
  shows "scrape_reviews w sc product_url max_pages_per_star io = (Inr [], sc, io)"
  using assms by (simp add: scrape_reviews_def split: option.splits)

theorem scrape_reviews_no_session_witness:
  "session (toy_scraper\<lparr>session := None\<rparr>) = None
   \<and> scrape_reviews (toy_world wall_net no_clock) (toy_scraper\<lparr>session := None\<rparr>) product_page 10 io0
       = (Inr [], toy_scraper\<lparr>session := None\<rparr>, io0)
   \<and> gets io0 = 0 \<and> fetch_calls io0 = 0 \<and> trace io0 = []"
proof -
  have h: "session (toy_scraper\<lparr>session := None\<rparr>) = None" by simp
  show ?thesis
    using h scrape_reviews_no_session [OF h, of "toy_world wall_net no_clock" product_page 10 io0]
    by (simp add: io0_def)
qed

section \<open>C5: a failed task does not abort the run\<close>



section \<open>C7: extracting the same page twice\<close>

text \<open>
  Claim C7 says that extracting the records of a fixed page content twice yields identical
  records, the capture time included. The code stamps every record with
  \<^verbatim>\<open>datetime.now()\<close> at the moment it is built, so this fails as soon as the clock has
  moved: below, the page with one review is extracted twice in a world whose clock
  advances by a second at every reading, and the two records differ in
  \<open>extracted_date\<close>.
\<close>

theorem extraction_timestamp_counterexample:
  "new_reviews toy_scraper
     (fst (snd (extract_reviews_from_page (toy_world dead_net ticking_clock) review_page 5 (toy_scraper, io0))))
   = [\<lparr>star_rating = 9 / 2, title = ''Great'', review_text = [], date = [], verified = True,
       author = [], extracted_date = ''2024-01-01 00:00:00''\<rparr>]
   \<and> new_reviews
     (fst (snd (extract_reviews_from_page (toy_world dead_net ticking_clock) review_page 5 (toy_scraper, io0))))
     (fst (snd (extract_reviews_from_page (toy_world dead_net ticking_clock) review_page 5
        (snd (extract_reviews_from_page (toy_world dead_net ticking_clock) review_page 5 (toy_scraper, io0))))))
   = [\<lparr>star_rating = 9 / 2, title = ''Great'', review_text = [], date = [], verified = True,
       author = [], extracted_date = ''2024-01-01 00:00:01''\<rparr>]
   \<and> new_reviews toy_scraper
     (fst (snd (extract_reviews_from_page (toy_world dead_net ticking_clock) review_page 5 (toy_scraper, io0))))
   \<noteq> new_reviews
     (fst (snd (extract_reviews_from_page (toy_world dead_net ticking_clock) review_page 5 (toy_scraper, io0))))
     (fst (snd (extract_reviews_from_page (toy_world dead_net ticking_clock) review_page 5
        (snd (extract_reviews_from_page (toy_world dead_net ticking_clock) review_page 5 (toy_scraper, io0))))))"
proof -
  have d0: "str_nat 0 = ''0''" and d1: "str_nat (Suc 0) = ''1''" by code_simp+
  have c0: "ticking_clock 0 = ''2024-01-01 00:00:00''"
    by (simp add: ticking_clock_def d0)
  have c1: "ticking_clock (Suc 0) = ''2024-01-01 00:00:01''"
    by (simp add: ticking_clock_def d1)
  show ?thesis
    by (simp add: toy_extract toy_review_fields c0 c1 io0_def new_reviews_def toy_scraper_def)
qed

text \<open>
  Claim C7, amended. Extracting the same page content twice, from any two states, yields
  the same number of records, and the records are equal in every field but
  \<open>extracted_date\<close>; the \<open>extracted_date\<close> of the \<open>i\<close>-th record is the clock reading taken
  when it is built; and the records are identical whenever the clock readings of the two
  extractions agree.
\<close>

theorem extraction_repeatable_up_to_timestamp:
  "fst (extract_reviews_from_page w html star (sc1, io1))
     = fst (extract_reviews_from_page w html star (sc2, io2))
   \<and> map undated (new_reviews sc1 (fst (snd (extract_reviews_from_page w html star (sc1, io1)))))
     = map undated (new_reviews sc2 (fst (snd (extract_reviews_from_page w html star (sc2, io2)))))
   \<and> map extracted_date (new_reviews sc1 (fst (snd (extract_reviews_from_page w html star (sc1, io1)))))
     = map (now w) [clock_reads io1 ..<
          clock_reads io1 + length (select w (parse w html) (REVIEW_SELECTORS Container))]
   \<and> ((\<forall>i < length (select w (parse w html) (REVIEW_SELECTORS Container)).
          now w (clock_reads io1 + i) = now w (clock_reads io2 + i)) \<longrightarrow>
        new_reviews sc1 (fst (snd (extract_reviews_from_page w html star (sc1, io1))))
        = new_reviews sc2 (fst (snd (extract_reviews_from_page w html star (sc2, io2)))))"
  by (simp add: extract_reviews_from_page_eq stamped_dates stamped_cong
        undated_stamped [of w star "clock_reads io1" _ "clock_reads io2"])

theorem extraction_repeatable_up_to_timestamp_witness:
  "now (toy_world dead_net frozen_clock) 0 = now (toy_world dead_net frozen_clock) 1
   \<and> new_reviews toy_scraper
     (fst (snd (extract_reviews_from_page (toy_world dead_net frozen_clock) review_page 5 (toy_scraper, io0))))
   = new_reviews
     (fst (snd (extract_reviews_from_page (toy_world dead_net frozen_clock) review_page 5 (toy_scraper, io0))))
     (fst (snd (extract_reviews_from_page (toy_world dead_net frozen_clock) review_page 5
        (snd (extract_reviews_from_page (toy_world dead_net frozen_clock) review_page 5 (toy_scraper, io0))))))
   \<and> map undated (new_reviews toy_scraper
     (fst (snd (extract_reviews_from_page (toy_world dead_net ticking_clock) review_page 5 (toy_scraper, io0)))))
   = map undated (new_reviews
     (fst (snd (extract_reviews_from_page (toy_world dead_net ticking_clock) review_page 5 (toy_scraper, io0))))
     (fst (snd (extract_reviews_from_page (toy_world dead_net ticking_clock) review_page 5
        (snd (extract_reviews_from_page (toy_world dead_net ticking_clock) review_page 5 (toy_scraper, io0)))))))"
proof -
  let ?w = "toy_world dead_net frozen_clock" and ?t = "toy_world dead_net ticking_clock"
  obtain sc1 io1 where s1: "snd (extract_reviews_from_page ?w review_page 5 (toy_scraper, io0)) = (sc1, io1)"
    by (cases "snd (extract_reviews_from_page ?w review_page 5 (toy_scraper, io0))")
  obtain sc2 io2 where s2: "snd (extract_reviews_from_page ?t review_page 5 (toy_scraper, io0)) = (sc2, io2)"
    by (cases "snd (extract_reviews_from_page ?t review_page 5 (toy_scraper, io0))")
  have frozen: "\<forall>i < length (select ?w (parse ?w review_page) (REVIEW_SELECTORS Container)).
          now ?w (clock_reads io0 + i) = now ?w (clock_reads io1 + i)"
    by (simp add: toy_world_def frozen_clock_def)
  note a = extraction_repeatable_up_to_timestamp [of ?w review_page 5 toy_scraper io0 sc1 io1,
             THEN conjunct2, THEN conjunct2, THEN conjunct2, THEN mp, OF frozen]
  note b = extraction_repeatable_up_to_timestamp [of ?t review_page 5 toy_scraper io0 sc2 io2,
             THEN conjunct2, THEN conjunct1]
  have f: "now ?w 0 = now ?w 1" by (simp add: toy_world_def frozen_clock_def)
  show ?thesis using a b f s1 s2 by simp
qed

section \<open>C6: what the caller learns from an empty table\<close>

text \<open>
  Claim C6 says that a run that completes without aborting but captures no review is
  reported to the caller with a status distinct from that of an aborted run. The method
  returns a table and nothing else, and the table of an aborted run is the empty table.
  Below, one run is aborted by the canary check (the server never answers: one call of
  the fetcher, no task), the other passes it and completes its five tasks (six calls of
  the fetcher, five successful requests, no review on any page): both return the empty
  table.
\<close>

theorem aborted_and_empty_runs_same_result:
  "fst (scrape_reviews (toy_world dead_net no_clock) toy_scraper product_page 1 io0) = Inr []
   \<and> fetch_calls (snd (snd (scrape_reviews (toy_world dead_net no_clock) toy_scraper product_page 1 io0))) = 1
   \<and> successful_requests (fst (snd (scrape_reviews (toy_world dead_net no_clock) toy_scraper product_page 1 io0))) = 0
   \<and> fst (scrape_reviews (toy_world empty_net no_clock) toy_scraper product_page 1 io0) = Inr []
   \<and> fetch_calls (snd (snd (scrape_reviews (toy_world empty_net no_clock) toy_scraper product_page 1 io0))) = 6
   \<and> successful_requests (fst (snd (scrape_reviews (toy_world empty_net no_clock) toy_scraper product_page 1 io0))) = 5
   \<and> failed_requests (fst (snd (scrape_reviews (toy_world empty_net no_clock) toy_scraper product_page 1 io0))) = 0
   \<and> fst (scrape_reviews (toy_world dead_net no_clock) toy_scraper product_page 1 io0)
     = fst (scrape_reviews (toy_world empty_net no_clock) toy_scraper product_page 1 io0)"
proof -
  let ?dead = "toy_world dead_net no_clock" and ?empty = "toy_world empty_net no_clock"
  let ?r0 = "\<lparr>status_code = 200, resp_text = ''<p>nothing here</p>''\<rparr>"
  have aborted: "scrape_reviews ?dead toy_scraper product_page 1 io0
      = (Inr [], toy_scraper,
         snd (make_request_with_backoff ?dead (canary_url ''B0ABCDEFGH'') (Some ''cookies'') 3 io0))"
    by (simp add: scrape_reviews_def product_page_id toy_session dead_canary)
  have a1: "fetch_calls (snd (make_request_with_backoff ?dead (canary_url ''B0ABCDEFGH'') (Some ''cookies'') 3 io0)) = 1"
    by (simp add: mrwb_fetch_calls io0_def)
  have steady: "\<forall>n s url. http_get ?empty n s url = Answer ?r0"
    by (simp add: toy_world_def empty_net_def ok_def empty_page_def)
  have st: "status_code ?r0 = 200" by simp
  have clean: "\<not> soft_blocked (resp_text ?r0)" by (simp add: soft_blocked_def)
  have none: "select ?empty (parse ?empty (resp_text ?r0)) (REVIEW_SELECTORS Container) = []"
    using toy_empty_page_elems [of empty_net no_clock] by (simp add: empty_page_def)
  obtain io1 where canary: "make_request_with_backoff ?empty (canary_url ''B0ABCDEFGH'') (Some ''cookies'') 3 io0
                            = (Inr (Some ?r0), io1)"
    using steady_fetch [OF steady st, of "canary_url ''B0ABCDEFGH''" "Some ''cookies''" io0]
    by (cases "make_request_with_backoff ?empty (canary_url ''B0ABCDEFGH'') (Some ''cookies'') 3 io0") simp
  have c1: "fetch_calls io1 = 1"
    using mrwb_fetch_calls [of ?empty "canary_url ''B0ABCDEFGH''" "Some ''cookies''" 3 io0] canary
    by (simp add: io0_def)
  have threads: "0 < max_threads toy_scraper" by (simp add: toy_scraper_def MAX_THREADS_def)
  note run = steady_run [OF steady st clean none build_tasks_filters, of "''B0ABCDEFGH''" 1 toy_scraper io1]
  note whole = scrape_reviews_completes [OF toy_session product_page_id canary clean threads, of 1]
  have len: "length (build_tasks 1) = 5" by (simp add: build_tasks_1)
  have completed: "fst (scrape_reviews ?empty toy_scraper product_page 1 io0) = Inr []"
    using whole run by (simp add: toy_scraper_def)
  have calls: "fetch_calls (snd (snd (scrape_reviews ?empty toy_scraper product_page 1 io0))) = 6"
    using whole run c1 len by (simp add: toy_scraper_def save_csv_def)
  have succ: "successful_requests (fst (snd (scrape_reviews ?empty toy_scraper product_page 1 io0))) = 5"
    using whole run len by (simp add: toy_scraper_def)
  have fail: "failed_requests (fst (snd (scrape_reviews ?empty toy_scraper product_page 1 io0))) = 0"
    using whole run len by (simp add: toy_scraper_def)
  show ?thesis
    using aborted a1 completed calls succ fail by (simp add: toy_scraper_def)
qed

text \<open>
  Claim C6, amended. \<^verbatim>\<open>scrape_reviews\<close> reports no status. A run aborted by the canary check
  and a run that passes it and ends with no review captured return the same value, the
  empty table.
\<close>

theorem scrape_reviews_returns_table_only:
  assumes "session sc = Some s"
      and "extract_product_id product_url = Some product_id"
      and "fst (make_request_with_backoff w (canary_url product_id) (Some s) 3 io) = Inr None
           \<or> (\<exists>r. fst (make_request_with_backoff w (canary_url product_id) (Some s) 3 io) = Inr (Some r)
                  \<and> soft_blocked (resp_text r))"
      and "session sc' = Some s'"
      and "extract_product_id product_url' = Some product_id'"
      and "make_request_with_backoff w' (canary_url product_id') (Some s') 3 io' = (Inr (Some r0), io1)"
      and "\<not> soft_blocked (resp_text r0)"
      and "0 < max_threads sc'"
      and "reviews_queue (fst (run_tasks w' product_id' (build_tasks max_pages') (sc', io1))) = []"
  shows "fst (scrape_reviews w sc product_url max_pages io) = Inr []
       \<and> fst (scrape_reviews w' sc' product_url' max_pages' io') = Inr []
       \<and> fst (scrape_reviews w sc product_url max_pages io)
         = fst (scrape_reviews w' sc' product_url' max_pages' io')"
proof -
  have a: "fst (scrape_reviews w sc product_url max_pages io) = Inr []"
    using assms(1-3) by (auto simp: scrape_reviews_def split: prod.splits sum.splits option.splits)
  have b: "fst (scrape_reviews w' sc' product_url' max_pages' io') = Inr []"
    using scrape_reviews_completes [OF assms(4-8), of max_pages'] assms(9) by simp
  show ?thesis using a b by simp
qed

theorem scrape_reviews_returns_table_only_witness:
  "fst (make_request_with_backoff (toy_world dead_net no_clock) (canary_url ''B0ABCDEFGH'') (Some ''cookies'') 3 io0)
     = Inr None
   \<and> fst (make_request_with_backoff (toy_world empty_net no_clock) (canary_url ''B0ABCDEFGH'') (Some ''cookies'') 3 io0)
     = Inr (Some \<lparr>status_code = 200, resp_text = ''<p>nothing here</p>''\<rparr>)
   \<and> reviews_queue (fst (run_tasks (toy_world empty_net no_clock) ''B0ABCDEFGH'' (build_tasks 2)
        (toy_scraper, snd (make_request_with_backoff (toy_world empty_net no_clock) (canary_url ''B0ABCDEFGH'')
                             (Some ''cookies'') 3 io0)))) = []
   \<and> fst (scrape_reviews (toy_world dead_net no_clock) toy_scraper product_page 2 io0) = Inr []
   \<and> fst (scrape_reviews (toy_world empty_net no_clock) toy_scraper product_page 2 io0) = Inr []"
proof -
  let ?dead = "toy_world dead_net no_clock" and ?empty = "toy_world empty_net no_clock"
  let ?r0 = "\<lparr>status_code = 200, resp_text = ''<p>nothing here</p>''\<rparr>"
  let ?canary = "make_request_with_backoff ?empty (canary_url ''B0ABCDEFGH'') (Some ''cookies'') 3 io0"
  have d: "fst (make_request_with_backoff ?dead (canary_url ''B0ABCDEFGH'') (Some ''cookies'') 3 io0) = Inr None
           \<or> (\<exists>r. fst (make_request_with_backoff ?dead (canary_url ''B0ABCDEFGH'') (Some ''cookies'') 3 io0) = Inr (Some r)
                  \<and> soft_blocked (resp_text r))"
    by (simp add: dead_canary)
  have steady: "\<forall>n s url. http_get ?empty n s url = Answer ?r0"
    by (simp add: toy_world_def empty_net_def ok_def empty_page_def)
  have st: "status_code ?r0 = 200" by simp
  have clean: "\<not> soft_blocked (resp_text ?r0)" by (simp add: soft_blocked_def)
  have none: "select ?empty (parse ?empty (resp_text ?r0)) (REVIEW_SELECTORS Container) = []"
    using toy_empty_page_elems [of empty_net no_clock] by (simp add: empty_page_def)
  have cf: "fst ?canary = Inr (Some ?r0)" by (rule steady_fetch [OF steady st])
  then have canary: "?canary = (Inr (Some ?r0), snd ?canary)" by (cases ?canary) simp
  have threads: "0 < max_threads toy_scraper" by (simp add: toy_scraper_def MAX_THREADS_def)
  have zero: "reviews_queue (fst (run_tasks ?empty ''B0ABCDEFGH'' (build_tasks 2) (toy_scraper, snd ?canary))) = []"
    using steady_run [OF steady st clean none build_tasks_filters, of "''B0ABCDEFGH''" 2 toy_scraper "snd ?canary"]
    by (simp add: toy_scraper_def)
  note t = scrape_reviews_returns_table_only [OF toy_session product_page_id d toy_session product_page_id
             canary clean threads zero, of 2]
  show ?thesis using t cf zero by (simp add: dead_canary)
qed

section \<open>C2: at most \<open>C\<close> fetches at a time\<close>

text \<open>
  Claim C2. Start the pool with a semaphore of capacity \<open>C\<close> and any list of tasks, and let
  the scheduler interleave the workers in any order, with any outcome of every fetch.
  In the state reached, at most \<open>C\<close> workers are inside the fetcher; the units left on the
  semaphore and the workers inside the block add up to \<open>C\<close>; and a worker whose fetch has
  ended gives its unit back with its next step, whatever the fetch ended with (a
  response, \<^verbatim>\<open>None\<close> or an exception).
  (The executor starts at most \<open>max_threads\<close> of the tasks at a time; the model lets all of
  them compete for the semaphore, which allows more interleavings, not fewer. The canary
  fetch is made before the pool exists, by the calling thread alone.)
\<close>

theorem semaphore_bounds_fetches:
  "in_fetch (run_pool schedule (start_pool capacity tasks)) \<le> capacity
   \<and> semaphore (run_pool schedule (start_pool capacity tasks))
       + holding (run_pool schedule (start_pool capacity tasks)) = capacity
   \<and> (\<forall>i x fetched.
         i < length (workers (run_pool schedule (start_pool capacity tasks)))
         \<and> workers (run_pool schedule (start_pool capacity tasks)) ! i = Fetched fetched \<longrightarrow>
         semaphore (step (i, x) (run_pool schedule (start_pool capacity tasks)))
           = semaphore (run_pool schedule (start_pool capacity tasks)) + 1
         \<and> workers (step (i, x) (run_pool schedule (start_pool capacity tasks))) ! i = Released)"
proof -
  let ?p = "run_pool schedule (start_pool capacity tasks)"
  have units: "semaphore ?p + holding ?p = capacity"
    using run_pool_units [of schedule "start_pool capacity tasks"]
    by (simp add: holding_start) (simp add: start_pool_def)
  have "in_fetch ?p \<le> holding ?p" by (rule in_fetch_le_holding)
  then have "in_fetch ?p \<le> capacity" using units by linarith
  then show ?thesis using units step_release by blast
qed

theorem semaphore_bounds_fetches_witness:
  "run_pool busy_schedule (start_pool 2 [(5, 1), (5, 2), (4, 1)])
     = \<lparr>semaphore = 0, workers = [Fetching, Fetching, Queued]\<rparr>
   \<and> in_fetch (run_pool busy_schedule (start_pool 2 [(5, 1), (5, 2), (4, 1)])) = 2
   \<and> run_pool (busy_schedule @ [(0, Inl Unexpected)]) (start_pool 2 [(5, 1), (5, 2), (4, 1)])
     = \<lparr>semaphore = 0, workers = [Fetched (Inl Unexpected), Fetching, Queued]\<rparr>
   \<and> step (0, Inr None) (run_pool (busy_schedule @ [(0, Inl Unexpected)]) (start_pool 2 [(5, 1), (5, 2), (4, 1)]))
     = \<lparr>semaphore = 1, workers = [Released, Fetching, Queued]\<rparr>
   \<and> in_fetch (run_pool (busy_schedule @ [(0, Inl Unexpected)]) (start_pool 2 [(5, 1), (5, 2), (4, 1)])) \<le> 2"
proof -
  let ?p = "run_pool (busy_schedule @ [(0, Inl Unexpected)]) (start_pool 2 [(5, 1), (5, 2), (4, 1)])"
  note t = semaphore_bounds_fetches [of "busy_schedule @ [(0, Inl Unexpected)]" 2 "[(5, 1), (5, 2), (4, 1)]"]
  have b: "in_fetch ?p \<le> 2" using t by blast
  have prem: "0 < length (workers ?p) \<and> workers ?p ! 0 = Fetched (Inl Unexpected)"
    by (simp add: busy_pool_next)
  have r: "semaphore (step (0, Inr None) ?p) = semaphore ?p + 1
           \<and> workers (step (0, Inr None) ?p) ! 0 = Released"
    using t [THEN conjunct2, THEN conjunct2, THEN spec, THEN spec, THEN spec, THEN mp, OF prem] .
  have s: "step (0, Inr None) ?p = \<lparr>semaphore = 1, workers = [Released, Fetching, Queued]\<rparr>"
    by (simp add: busy_pool_next step_def)
  have f: "in_fetch (run_pool busy_schedule (start_pool 2 [(5, 1), (5, 2), (4, 1)])) = 2"
    by (simp add: busy_pool in_fetch_def)
  show ?thesis using b r s f busy_pool busy_pool_next by simp
qed

end
